theory Spec2Isabelle
  imports Complex_Main
begin

section \<open>JavaScript values\<close>

text \<open>
  Both Lambda functions work on values that come out of \<^verbatim>\<open>JSON.parse\<close>, test them
  for truthiness and read their properties. A value is \<^verbatim>\<open>undefined\<close>, \<^verbatim>\<open>null\<close>, a
  boolean, a number, a string, an array or an object whose members keep their order.
  A number is the value of a finite IEEE 754 binary64, held as a rational
  (\<^verbatim>\<open>-0\<close> is not told apart from \<^verbatim>\<open>0\<close>: both are falsy and both print as \<^verbatim>\<open>0\<close>).
\<close>

datatype json =
    JUndefined
  | JNull
  | JBool bool
  | JNum rat
  | JStr string
  | JArr "json list"
  | JObj "(string \<times> json) list"

text \<open>
  What a \<^verbatim>\<open>throw\<close> carries: the error's class and its \<^verbatim>\<open>message\<close>.
\<close>

datatype js_error =
    TypeError string
  | SyntaxError string
  | Error string

fun message :: "js_error \<Rightarrow> string" where
  "message (TypeError m) = m"
| "message (SyntaxError m) = m"
| "message (Error m) = m"

text \<open>Sequencing of steps that may throw: the first error ends the computation.\<close>

fun and_then :: "js_error + 'a \<Rightarrow> ('a \<Rightarrow> js_error + 'b) \<Rightarrow> js_error + 'b" where
  "and_then (Inl e) f = Inl e"
| "and_then (Inr x) f = f x"

text \<open>\<^verbatim>\<open>!v\<close> is \<open>\<not> truthy v\<close>.\<close>

fun truthy :: "json \<Rightarrow> bool" where
  "truthy JUndefined = False"
| "truthy JNull = False"
| "truthy (JBool b) = b"
| "truthy (JNum x) = (x \<noteq> 0)"
| "truthy (JStr s) = (s \<noteq> [])"
| "truthy (JArr xs) = True"
| "truthy (JObj ms) = True"

text \<open>
  \<^verbatim>\<open>v.k\<close>: reading a property of \<^verbatim>\<open>undefined\<close> or \<^verbatim>\<open>null\<close> throws a TypeError; an
  object yields its member or \<^verbatim>\<open>undefined\<close>. None of the property names the two
  sources read is a built-in property of a boolean, number, string or array, so
  those yield \<^verbatim>\<open>undefined\<close>.
\<close>

fun get_prop :: "json \<Rightarrow> string \<Rightarrow> js_error + json" where
  "get_prop JUndefined k = Inl (TypeError ''Cannot read properties of undefined'')"
| "get_prop JNull k = Inl (TypeError ''Cannot read properties of null'')"
| "get_prop (JObj ms) k = Inr (case map_of ms k of Some v \<Rightarrow> v | None \<Rightarrow> JUndefined)"
| "get_prop v k = Inr JUndefined"

text \<open>\<^verbatim>\<open>a || b\<close> on values.\<close>

definition js_or :: "json \<Rightarrow> json \<Rightarrow> json" where
  "js_or a b = (if truthy a then a else b)"

subsection \<open>JSON text\<close>

text \<open>
  A piece of text is either the JSON text of a value or not JSON at all.
  \<^verbatim>\<open>JSON.stringify\<close> leaves out an object member whose value is \<^verbatim>\<open>undefined\<close> and
  prints an \<^verbatim>\<open>undefined\<close> array element as \<^verbatim>\<open>null\<close>; two values have the same text
  exactly when they agree after that. \<^verbatim>\<open>JSON.parse\<close> gives the value back, or throws
  a SyntaxError.
\<close>

datatype json_text = JsonText json | NotJson

fun to_json :: "json \<Rightarrow> json"
  and to_json_elements :: "json list \<Rightarrow> json list"
  and to_json_members :: "(string \<times> json) list \<Rightarrow> (string \<times> json) list" where
  "to_json (JArr xs) = JArr (to_json_elements xs)"
| "to_json (JObj ms) = JObj (to_json_members ms)"
| "to_json JUndefined = JUndefined"
| "to_json JNull = JNull"
| "to_json (JBool b) = JBool b"
| "to_json (JNum x) = JNum x"
| "to_json (JStr s) = JStr s"
| "to_json_elements [] = []"
| "to_json_elements (x # xs) =
     (if x = JUndefined then JNull else to_json x) # to_json_elements xs"
| "to_json_members [] = []"
| "to_json_members ((k, v) # ms) =
     (if v = JUndefined then to_json_members ms else (k, to_json v) # to_json_members ms)"

definition JSON_stringify :: "json \<Rightarrow> json_text" where
  "JSON_stringify v = JsonText (to_json v)"

fun JSON_parse :: "json_text \<Rightarrow> js_error + json" where
  "JSON_parse (JsonText v) = Inr v"
| "JSON_parse NotJson = Inl (SyntaxError ''Unexpected token'')"

subsection \<open>Conversion to string\<close>

text \<open>
  \<^verbatim>\<open>ToString\<close>, the conversion that a template literal applies to a placeholder
  \<^verbatim>\<open>${v}\<close>. Printing a number is the engine's \<^verbatim>\<open>Number.prototype.toString\<close>; it is
  a parameter \<open>ns\<close> of the model. An array joins its elements with commas, \<^verbatim>\<open>null\<close>
  and \<^verbatim>\<open>undefined\<close> elements printing as nothing; an object prints as
  \<^verbatim>\<open>[object Object]\<close>, unless it has a member named \<^verbatim>\<open>toString\<close> of its own, which
  (coming from JSON) is not a function: then the conversion throws a TypeError.
\<close>

fun template_string :: "(rat \<Rightarrow> string) \<Rightarrow> json \<Rightarrow> js_error + string"
  and join_elements :: "(rat \<Rightarrow> string) \<Rightarrow> json list \<Rightarrow> js_error + string" where
  "template_string ns JUndefined = Inr ''undefined''"
| "template_string ns JNull = Inr ''null''"
| "template_string ns (JBool b) = Inr (if b then ''true'' else ''false'')"
| "template_string ns (JNum x) = Inr (ns x)"
| "template_string ns (JStr s) = Inr s"
| "template_string ns (JArr xs) = join_elements ns xs"
| "template_string ns (JObj ms) =
     (if map_of ms ''toString'' = None then Inr ''[object Object]''
      else Inl (TypeError ''Cannot convert object to primitive value''))"
| "join_elements ns [] = Inr []"
| "join_elements ns (x # xs) =
     and_then (if x = JUndefined \<or> x = JNull then Inr [] else template_string ns x) (\<lambda>s.
     and_then (join_elements ns xs) (\<lambda>t.
     Inr (if xs = [] then s else s @ '','' @ t)))"

text \<open>
  The method call \<^verbatim>\<open>v.toString()\<close>: it throws on \<^verbatim>\<open>undefined\<close> and \<^verbatim>\<open>null\<close>, and on
  an object whose own member \<^verbatim>\<open>toString\<close> is not a function; any other value prints
  as in a template literal.
\<close>

fun to_string :: "(rat \<Rightarrow> string) \<Rightarrow> json \<Rightarrow> js_error + string" where
  "to_string ns JUndefined = Inl (TypeError ''Cannot read properties of undefined'')"
| "to_string ns JNull = Inl (TypeError ''Cannot read properties of null'')"
| "to_string ns (JObj ms) =
     (if map_of ms ''toString'' = None then Inr ''[object Object]''
      else Inl (TypeError ''toString is not a function''))"
| "to_string ns v = template_string ns v"

text \<open>\<^verbatim>\<open>String.prototype.toUpperCase\<close> on the ASCII letters; other characters stay.\<close>

definition upper_char :: "char \<Rightarrow> char" where
  "upper_char c =
     (let n = (of_char c :: nat) in if 97 \<le> n \<and> n \<le> 122 then char_of (n - 32) else c)"

text \<open>
  \<^verbatim>\<open>v.toUpperCase()\<close>: a method of strings only; on any other value the property is
  \<^verbatim>\<open>undefined\<close> and the call throws.
\<close>

fun toUpperCase :: "json \<Rightarrow> js_error + string" where
  "toUpperCase (JStr s) = Inr (map upper_char s)"
| "toUpperCase v = Inl (TypeError ''toUpperCase is not a function'')"

subsection \<open>JSON text, character by character\<close>

text \<open>
  The characters that \<^verbatim>\<open>JSON.stringify(v)\<close> returns (without indentation), for the one
  place where the source puts JSON text inside a value. A string is quoted, with the
  quotation mark, the backslash and the control characters escaped. (For \<^verbatim>\<open>undefined\<close>
  itself \<^verbatim>\<open>JSON.stringify\<close> returns no string; the model gives the empty one.)
\<close>

definition hex_digit :: "nat \<Rightarrow> char" where
  "hex_digit n = (if n < 10 then char_of (48 + n) else char_of (87 + n))"

definition escape_char :: "char \<Rightarrow> string" where
  "escape_char c =
     (let n = (of_char c :: nat) in
      if n = 34 then [CHR 0x5C, CHR 0x22]
      else if n = 92 then [CHR 0x5C, CHR 0x5C]
      else if n = 8 then [CHR 0x5C, CHR ''b'']
      else if n = 12 then [CHR 0x5C, CHR ''f'']
      else if n = 10 then [CHR 0x5C, CHR ''n'']
      else if n = 13 then [CHR 0x5C, CHR ''r'']
      else if n = 9 then [CHR 0x5C, CHR ''t'']
      else if n < 32 then
        [CHR 0x5C, CHR ''u'', CHR ''0'', CHR ''0'', hex_digit (n div 16), hex_digit (n mod 16)]
      else [c])"

definition quote :: "string \<Rightarrow> string" where
  "quote s = [CHR 0x22] @ concat (map escape_char s) @ [CHR 0x22]"

fun json_chars :: "(rat \<Rightarrow> string) \<Rightarrow> json \<Rightarrow> string"
  and elements_chars :: "(rat \<Rightarrow> string) \<Rightarrow> json list \<Rightarrow> string"
  and members_chars :: "(rat \<Rightarrow> string) \<Rightarrow> (string \<times> json) list \<Rightarrow> string" where
  "json_chars ns JUndefined = []"
| "json_chars ns JNull = ''null''"
| "json_chars ns (JBool b) = (if b then ''true'' else ''false'')"
| "json_chars ns (JNum x) = ns x"
| "json_chars ns (JStr s) = quote s"
| "json_chars ns (JArr xs) = ''['' @ elements_chars ns xs @ '']''"
| "json_chars ns (JObj ms) = ''{'' @ members_chars ns ms @ ''}''"
| "elements_chars ns [] = []"
| "elements_chars ns (x # xs) =
     (if x = JUndefined then ''null'' else json_chars ns x)
     @ (if xs = [] then [] else '','' @ elements_chars ns xs)"
| "members_chars ns [] = []"
| "members_chars ns ((k, v) # ms) =
     (if v = JUndefined then members_chars ns ms
      else quote k @ '':'' @ json_chars ns v
           @ (let rest = members_chars ns ms in if rest = [] then [] else '','' @ rest))"

section \<open>What both Lambda functions share\<close>

text \<open>
  The event a Lambda function receives: a direct invocation carries the request text
  in \<^verbatim>\<open>event.body\<close>; an SQS delivery carries \<^verbatim>\<open>event.Records\<close>, an array of records
  with a \<^verbatim>\<open>body\<close> each. An SQS event has no \<^verbatim>\<open>body\<close> of its own, and
  \<^verbatim>\<open>JSON.parse(undefined)\<close> throws as it does on any text that is not JSON.
\<close>

datatype sqs_record = SqsRecord json_text

datatype lambda_event = DirectEvent json_text | SqsEvent "sqs_record list"

fun event_body :: "lambda_event \<Rightarrow> json_text" where
  "event_body (DirectEvent t) = t"
| "event_body (SqsEvent rs) = NotJson"

fun record_body :: "sqs_record \<Rightarrow> json_text" where
  "record_body (SqsRecord t) = t"

text \<open>The object every handler returns: \<^verbatim>\<open>{ statusCode, body: JSON.stringify(...) }\<close>.\<close>

record response =
  statusCode :: nat
  body :: json_text

definition respond :: "nat \<Rightarrow> json \<Rightarrow> response" where
  "respond code v = \<lparr>statusCode = code, body = JSON_stringify v\<rparr>"

text \<open>
  The item of the DynamoDB table, as \<^verbatim>\<open>KonverzkyOrderConsumer.js\<close> writes it. The
  table is written by that handler only, so \<^verbatim>\<open>items\<close> is an array; \<^verbatim>\<open>webhook_types\<close>
  is tested for truthiness before it is read, so it may be missing.
\<close>

record order_record =
  order_id :: string
  items :: "json list"
  last_updated :: string
  webhook_types :: "json list option"

text \<open>
  The document client of both sources is built with its default options
  (\<^verbatim>\<open>DynamoDBDocumentClient.from(client)\<close>), so it does not remove \<^verbatim>\<open>undefined\<close>
  values: marshalling an item throws when a value anywhere in it is \<^verbatim>\<open>undefined\<close>, and
  the \<^verbatim>\<open>PutCommand\<close> fails before it reaches the table.
\<close>

fun has_undefined :: "json \<Rightarrow> bool"
  and any_undefined :: "json list \<Rightarrow> bool"
  and member_undefined :: "(string \<times> json) list \<Rightarrow> bool" where
  "has_undefined JUndefined = True"
| "has_undefined JNull = False"
| "has_undefined (JBool b) = False"
| "has_undefined (JNum x) = False"
| "has_undefined (JStr s) = False"
| "has_undefined (JArr xs) = any_undefined xs"
| "has_undefined (JObj ms) = member_undefined ms"
| "any_undefined [] = False"
| "any_undefined (x # xs) = (has_undefined x \<or> any_undefined xs)"
| "member_undefined [] = False"
| "member_undefined ((k, v) # ms) = (has_undefined v \<or> member_undefined ms)"

definition marshall_throws :: "order_record \<Rightarrow> bool" where
  "marshall_throws item =
     (any_undefined (items item)
      \<or> (case webhook_types item of None \<Rightarrow> False | Some tags \<Rightarrow> any_undefined tags))"

section \<open>KonverzkyOrderConsumer.js\<close>

text \<open>
  The handler's surroundings: the clock behind \<^verbatim>\<open>new Date().toISOString()\<close>, the
  engine's number printer, and whether DynamoDB rejects a \<^verbatim>\<open>GetCommand\<close> for a key or a
  \<^verbatim>\<open>PutCommand\<close> for an item that the client has marshalled. A table that accepts a
  \<^verbatim>\<open>PutCommand\<close> returns the item as written to a later \<^verbatim>\<open>GetCommand\<close>.
\<close>

record order_env =
  now :: string
  number_to_string :: "rat \<Rightarrow> string"
  get_rejects :: "string \<Rightarrow> bool"
  put_rejects :: "order_record \<Rightarrow> bool"

datatype log_level = LOG | WARN | ERROR

text \<open>
  The state the handler acts on: the table, and the console, of which each entry keeps
  the level and the message: the first argument of the call, a template literal as the
  source writes it (that of line 83 up to its first sentence). The placeholders of these
  literals are the order identifier, a string, and results of \<^verbatim>\<open>JSON.stringify\<close>, so
  that none of them throws.
\<close>

record order_world =
  table :: "string \<rightharpoonup> order_record"
  console :: "(log_level \<times> string) list"

definition console_put :: "log_level \<Rightarrow> string \<Rightarrow> order_world \<Rightarrow> order_world" where
  "console_put l m w = w\<lparr>console := console w @ [(l, m)]\<rparr>"

text \<open>A step that may throw, in a state: the exception leaves the handler with that state.\<close>

fun raising ::
  "js_error + 'a \<Rightarrow> 'w \<Rightarrow> ('a \<Rightarrow> (js_error + 'b) \<times> 'w) \<Rightarrow> (js_error + 'b) \<times> 'w" where
  "raising (Inl e) w f = (Inl e, w)"
| "raising (Inr x) w f = f x"

definition allowedWebhookTypes :: "json list" where
  "allowedWebhookTypes = [JStr ''upsell_paid'', JStr ''product_paid'', JStr ''order_paid'']"

text \<open>
  \<^verbatim>\<open>Array.prototype.includes\<close> and \<^verbatim>\<open>Set\<close> compare by SameValueZero: primitives by
  value, arrays and objects by identity, and no two arrays or objects that come from
  parsed text or from the table are the same object.
\<close>

fun same_value_zero :: "json \<Rightarrow> json \<Rightarrow> bool" where
  "same_value_zero (JArr xs) b = False"
| "same_value_zero (JObj ms) b = False"
| "same_value_zero a b = (a = b)"

definition array_includes :: "json list \<Rightarrow> json \<Rightarrow> bool" where
  "array_includes xs v = (\<exists>x \<in> set xs. same_value_zero x v)"

text \<open>\<^verbatim>\<open>Array.from(new Set(xs))\<close>: the first occurrence of each value, in order.\<close>

definition set_add :: "json list \<Rightarrow> json \<Rightarrow> json list" where
  "set_add s v = (if array_includes s v then s else s @ [v])"

definition array_from_set :: "json list \<Rightarrow> json list" where
  "array_from_set xs = foldl set_add [] xs"

text \<open>The callback of \<^verbatim>\<open>orderItems.map\<close> (lines 55--61): the five fields, by property read.\<close>

definition parse_item :: "json \<Rightarrow> js_error + json" where
  "parse_item item =
     and_then (get_prop item ''name'') (\<lambda>name.
     and_then (get_prop item ''id'') (\<lambda>ident.
     and_then (get_prop item ''quantity'') (\<lambda>quantity.
     and_then (get_prop item ''unit_price'') (\<lambda>unit_price.
     and_then (get_prop item ''vat'') (\<lambda>vat.
     Inr (JObj [(''name'', name), (''id'', ident), (''quantity'', quantity),
                (''unit_price'', unit_price), (''vat'', vat)]))))))"

text \<open>\<^verbatim>\<open>xs.map(f)\<close> for a callback that may throw.\<close>

fun map_throwing :: "('a \<Rightarrow> js_error + 'b) \<Rightarrow> 'a list \<Rightarrow> js_error + 'b list" where
  "map_throwing f [] = Inr []"
| "map_throwing f (x # xs) =
     and_then (f x) (\<lambda>y. and_then (map_throwing f xs) (\<lambda>ys. Inr (y # ys)))"

text \<open>\<^verbatim>\<open>Array.isArray\<close>, and the elements of an array.\<close>

fun isArray :: "json \<Rightarrow> bool" where
  "isArray (JArr xs) = True"
| "isArray v = False"

fun elements :: "json \<Rightarrow> json list" where
  "elements (JArr xs) = xs"
| "elements v = []"

text \<open>
  Lines 63--119 of the handler, the read, compare and write that the specification
  calls \<^verbatim>\<open>OrderStore.upsert(orderId, items, tag)\<close>: read the existing item (a failure
  is answered with 500), warn when its items print differently from the incoming
  ones, build the item with the tag joined to the tags already seen, and write it
  (a failure, of the client to marshal the item or of the table to accept it, is
  answered with 500).
\<close>

definition upsert ::
  "order_env \<Rightarrow> json \<Rightarrow> string \<Rightarrow> json list \<Rightarrow> order_world \<Rightarrow>
     (js_error + response) \<times> order_world" where
  "upsert env webhook_type orderId parsedItems w1 =
    (if get_rejects env orderId then
       (Inr (respond 500 (JObj [(''error'', JStr ''Error reading from database'')])),
        console_put ERROR ''Error retrieving order from DynamoDB:'' w1)
     else
     let existingOrder = table w1 orderId;
         w2 = (case existingOrder of
                 None \<Rightarrow> w1
               | Some existing \<Rightarrow>
                   if JSON_stringify (JArr (items existing)) \<noteq> JSON_stringify (JArr parsedItems)
                   then console_put WARN ''Inconsistency detected for order_id ${orderId}.'' w1
                   else console_put LOG ''Order ${orderId} already exists with matching items.'' w1);
         timestamp = now env;
         item = \<lparr>order_id = orderId,
                 items = parsedItems,
                 last_updated = timestamp,
                 webhook_types =
                   (case existingOrder of
                      None \<Rightarrow> Some [webhook_type]
                    | Some existing \<Rightarrow>
                        (case webhook_types existing of
                           None \<Rightarrow> Some [webhook_type]
                         | Some seen \<Rightarrow> Some (array_from_set (seen @ [webhook_type]))))\<rparr>
     in
     if marshall_throws item \<or> put_rejects env item then
       (Inr (respond 500 (JObj [(''error'', JStr ''Error writing to database'')])),
        console_put ERROR ''Error writing to DynamoDB:'' w2)
     else
       (Inr (respond 200 (JObj [(''message'', JStr ''Order processed successfully'')])),
        console_put LOG ''Order ${orderId} stored/updated successfully.''
          (w2\<lparr>table := (table w2)(orderId \<mapsto> item)\<rparr>)))"

text \<open>
  The handler, statement by statement (lines 10--61, then the upsert). \<open>Inl\<close> in the
  result is an exception that leaves the handler (a rejected promise): the source
  catches the failure of \<^verbatim>\<open>JSON.parse\<close> and of the two DynamoDB commands, and nothing
  else. The \<^verbatim>\<open>context\<close> that the Lambda runtime passes is an object, so the assignment
  of line 11 does nothing that the model sees.
\<close>

definition konverzky_handler ::
  "order_env \<Rightarrow> lambda_event \<Rightarrow> order_world \<Rightarrow> (js_error + response) \<times> order_world" where
  "konverzky_handler env event w0 =
    (let w1 = console_put LOG ''Received event:'' w0 in
     case JSON_parse (event_body event) of
       Inl err \<Rightarrow>
         (Inr (respond 400 (JObj [(''error'', JStr ''Invalid JSON in request body'')])),
          console_put ERROR ''Error parsing event body:'' w1)
     | Inr payload \<Rightarrow>
     raising (get_prop payload ''webhook_type'') w1 (\<lambda>webhook_type.
     if \<not> truthy webhook_type \<or> \<not> array_includes allowedWebhookTypes webhook_type then
       (Inr (respond 200 (JObj [(''message'', JStr ''Ignored unsupported webhook_type'')])),
        console_put LOG ''Ignoring event with unsupported webhook_type:'' w1)
     else
     raising (get_prop payload ''order'') w1 (\<lambda>order.
     raising (if truthy order then get_prop order ''id'' else Inr JUndefined) w1 (\<lambda>order_ident.
     if \<not> truthy order \<or> \<not> truthy order_ident then
       (Inr (respond 400 (JObj [(''error'', JStr ''Missing order or order.id'')])),
        console_put ERROR ''Missing order or order.id in payload'' w1)
     else
     raising (to_string (number_to_string env) order_ident) w1 (\<lambda>orderId.
     raising (get_prop order ''items'') w1 (\<lambda>orderItems.
     if \<not> isArray orderItems then
       (Inr (respond 400 (JObj [(''error'', JStr ''order.items is not an array'')])),
        console_put ERROR ''order.items is not an array'' w1)
     else
     raising (map_throwing parse_item (elements orderItems)) w1 (\<lambda>parsedItems.
     upsert env webhook_type orderId parsedItems w1)))))))"


section \<open>Numbers\<close>

text \<open>
  The result of an arithmetic operation is a finite binary64, a NaN or an infinity.
\<close>

datatype jsnum = Finite rat | NaN | PosInfinity | NegInfinity

text \<open>\<open>2\<close> to an integer power.\<close>

definition pow2 :: "int \<Rightarrow> rat" where
  "pow2 e = (if 0 \<le> e then 2 ^ nat e else 1 / 2 ^ nat (- e))"

text \<open>The number of times a positive integer can be halved before it is \<open>1\<close>.\<close>

function log2_floor :: "int \<Rightarrow> nat" where
  "log2_floor n = (if n < 2 then 0 else Suc (log2_floor (n div 2)))"
  by pat_completeness auto
termination
  by (relation "measure nat") auto

declare log2_floor.simps [simp del]

text \<open>The exponent \<open>e\<close> of a positive rational \<open>x\<close>: \<open>2 ^ e \<le> x < 2 ^ (e + 1)\<close>.\<close>

definition exponent_of :: "rat \<Rightarrow> int" where
  "exponent_of x =
     (if 1 \<le> x then int (log2_floor \<lfloor>x\<rfloor>)
      else let k = log2_floor \<lfloor>1 / x\<rfloor>
           in if 1 / x = 2 ^ k then - int k else - int (Suc k))"

text \<open>Rounding to the nearest integer, a tie going to the even one.\<close>

definition round_half_even :: "rat \<Rightarrow> int" where
  "round_half_even q =
     (let f = \<lfloor>q\<rfloor>; r = q - of_int f
      in if r < 1 / 2 then f else if 1 / 2 < r then f + 1 else if even f then f else f + 1)"

text \<open>
  The binary64 nearest to a rational (round to nearest, ties to even): 53 significant
  bits, the spacing of the subnormal numbers below \<open>2 ^ -1022\<close>.
\<close>

definition round_binary64 :: "rat \<Rightarrow> rat" where
  "round_binary64 x =
     (if x = 0 then 0
      else let e = max (exponent_of \<bar>x\<bar>) (- 1022);
               ulp = pow2 (e - 52)
           in of_int (round_half_even (x / ulp)) * ulp)"

definition binary64 :: "rat \<Rightarrow> jsnum" where
  "binary64 x =
     (let r = round_binary64 x
      in if 2 ^ 1024 \<le> r then PosInfinity
         else if r \<le> - (2 ^ 1024) then NegInfinity
         else Finite r)"

text \<open>
  \<^verbatim>\<open>ToNumber\<close>, the conversion that \<^verbatim>\<open>*\<close> and \<^verbatim>\<open>>\<close> apply to an operand. What it yields
  for a string, an array or an object is the engine's; it is a parameter \<open>coerce\<close>.
\<close>

fun ToNumber :: "(json \<Rightarrow> jsnum) \<Rightarrow> json \<Rightarrow> jsnum" where
  "ToNumber coerce JUndefined = NaN"
| "ToNumber coerce JNull = Finite 0"
| "ToNumber coerce (JBool b) = Finite (if b then 1 else 0)"
| "ToNumber coerce (JNum x) = Finite x"
| "ToNumber coerce v = coerce v"

text \<open>\<^verbatim>\<open>v * 100\<close>: the exact product, rounded to binary64.\<close>

fun times_100 :: "jsnum \<Rightarrow> jsnum" where
  "times_100 (Finite x) = binary64 (x * 100)"
| "times_100 NaN = NaN"
| "times_100 PosInfinity = PosInfinity"
| "times_100 NegInfinity = NegInfinity"

text \<open>\<^verbatim>\<open>v > 0\<close>.\<close>

fun greater_than_0 :: "jsnum \<Rightarrow> bool" where
  "greater_than_0 (Finite x) = (0 < x)"
| "greater_than_0 PosInfinity = True"
| "greater_than_0 v = False"

text \<open>A number as \<^verbatim>\<open>JSON.stringify\<close> prints it: NaN and the infinities print as \<^verbatim>\<open>null\<close>.\<close>

fun number_json :: "jsnum \<Rightarrow> json" where
  "number_json (Finite x) = JNum x"
| "number_json v = JNull"

section \<open>The Stripe event processor\<close>

text \<open>What the function sends out.\<close>

record sqs_message =
  QueueUrl :: string
  MessageBody :: json_text
  DelaySeconds :: nat

record sns_message =
  TopicArn :: string
  Subject :: string
  Message :: json_text

text \<open>
  A request of \<^verbatim>\<open>fetch\<close>: the method, the URL, the token of the \<^verbatim>\<open>Authorization\<close>
  header (\<^verbatim>\<open>Bearer ${token}\<close>) and the body.
\<close>

record http_request =
  http_method :: string
  url :: string
  bearer :: string
  request_body :: "json_text option"

text \<open>
  What \<^verbatim>\<open>fetch\<close> resolves to: \<^verbatim>\<open>ok\<close>, \<^verbatim>\<open>status\<close>, what \<^verbatim>\<open>text()\<close> gives, what
  \<^verbatim>\<open>json()\<close> gives (it throws on a body that is not JSON) and the \<^verbatim>\<open>Location\<close>
  header, if any.
\<close>

record http_response =
  ok :: bool
  status :: nat
  response_text :: string
  json_body :: json_text
  location :: "string option"

text \<open>
  The function's surroundings: the eight environment variables (an unset variable is
  the empty string: the source only tests them for truthiness before use), the clock
  (the timestamp of \<^verbatim>\<open>new Date().toISOString()\<close>, and the issue and due dates that lines
  225--229 derive from it), the engine's number printer and its coercion to numbers, the
  table as \<^verbatim>\<open>GetCommand\<close> reads it (\<open>Inl\<close> when the command is rejected), the errors
  with which SQS and SNS reject a message (\<open>None\<close> when they accept it), and the
  remote services behind \<^verbatim>\<open>fetch\<close>.
\<close>

record stripe_env =
  bankAccountCode :: string
  paymentAccount :: string
  companySlug :: string
  fikenToken :: string
  stripeApiKey :: string
  TABLE_NAME :: string
  RETRY_QUEUE_URL :: string
  SNS_TOPIC_ARN :: string
  iso_now :: string
  issue_date :: string
  due_date :: string
  print_number :: "rat \<Rightarrow> string"
  coerce_number :: "json \<Rightarrow> jsnum"
  dynamo_get :: "string \<Rightarrow> js_error + order_record option"
  sqs_rejects :: "sqs_message \<Rightarrow> js_error option"
  sns_rejects :: "sns_message \<Rightarrow> js_error option"
  fetch :: "http_request \<Rightarrow> js_error + http_response"

text \<open>
  What the function has done: the keys it has asked the table for, the messages the
  retry queue has accepted, the notifications the topic has accepted, and the HTTP
  requests it has issued. What it prints on the console is left out; the template
  literals that it prints are evaluated all the same, since a placeholder that cannot
  be converted to a string makes the statement throw.
\<close>

record stripe_world =
  gets :: "string list"
  queue :: "sqs_message list"
  notifications :: "sns_message list"
  requests :: "http_request list"

text \<open>A call that acts on the state and may throw, followed by the rest.\<close>

fun after ::
  "(js_error + 'a) \<times> 'w \<Rightarrow> ('a \<Rightarrow> 'w \<Rightarrow> (js_error + 'b) \<times> 'w) \<Rightarrow> (js_error + 'b) \<times> 'w" where
  "after (Inl e, w) f = (Inl e, w)"
| "after (Inr x, w) f = f x w"

text \<open>Lines 23--37. The \<^verbatim>\<open>catch\<close> logs and throws the error again.\<close>

definition sendRetryMessage ::
  "stripe_env \<Rightarrow> json \<Rightarrow> stripe_world \<Rightarrow> (js_error + unit) \<times> stripe_world" where
  "sendRetryMessage env messageBody w =
    (let params = \<lparr>QueueUrl = RETRY_QUEUE_URL env,
                    MessageBody = JSON_stringify messageBody,
                    DelaySeconds = 5\<rparr>
     in case sqs_rejects env params of
          Some error \<Rightarrow> (Inl error, w)
        | None \<Rightarrow> (Inr (), w\<lparr>queue := queue w @ [params]\<rparr>))"

text \<open>\<^verbatim>\<open>${charge.id}\<close>, which several template literals of the source hold.\<close>

definition charge_id_text :: "stripe_env \<Rightarrow> json \<Rightarrow> js_error + string" where
  "charge_id_text env charge =
     and_then (get_prop charge ''id'') (\<lambda>ident. template_string (print_number env) ident)"

text \<open>
  Lines 40--59. The subject is a template literal with the identifier of the charge.
  The \<^verbatim>\<open>catch\<close> logs and throws the error again.
\<close>

definition sendManualOrderNotification ::
  "stripe_env \<Rightarrow> json \<Rightarrow> stripe_world \<Rightarrow> (js_error + unit) \<times> stripe_world" where
  "sendManualOrderNotification env charge w =
    raising (charge_id_text env charge) w (\<lambda>id_text.
    let params = \<lparr>TopicArn = SNS_TOPIC_ARN env,
                   Subject = ''Manual order handling required for charge '' @ id_text,
                   Message = JSON_stringify (JObj
                     [(''message'',
                       JStr ''A charge requires manual order handling due to missing metadata''),
                      (''charge'', charge),
                      (''timestamp'', JStr (iso_now env))])\<rparr>
    in case sns_rejects env params of
         Some error \<Rightarrow> (Inl error, w)
       | None \<Rightarrow> (Inr (), w\<lparr>notifications := notifications w @ [params]\<rparr>))"

text \<open>Lines 64--71: the first unset variable decides the error.\<close>

definition config_error :: "stripe_env \<Rightarrow> js_error option" where
  "config_error env =
    (if bankAccountCode env = [] then
       Some (Error ''FIKEN_BANK_ACCOUNT_CODE environment variable is not set'')
     else if paymentAccount env = [] then
       Some (Error ''FIKEN_PAYMENT_ACCOUNT environment variable is not set'')
     else if companySlug env = [] then
       Some (Error ''FIKEN_COMPANY_SLUG environment variable is not set'')
     else if fikenToken env = [] then
       Some (Error ''FIKEN_API_TOKEN environment variable is not set'')
     else if stripeApiKey env = [] then
       Some (Error ''STRIPE_API_KEY environment variable is not set'')
     else if TABLE_NAME env = [] then
       Some (Error ''DDB_TABLE environment variable is not set'')
     else if RETRY_QUEUE_URL env = [] then
       Some (Error ''STRIPE_RETRY_QUEUE_URL environment variable is not set'')
     else if SNS_TOPIC_ARN env = [] then
       Some (Error ''MANUAL_ORDER_SNS_TOPIC environment variable is not set'')
     else None)"

text \<open>\<^verbatim>\<open>fetch\<close>: the request is issued, and the service answers or the call throws.\<close>

definition do_fetch ::
  "stripe_env \<Rightarrow> http_request \<Rightarrow> stripe_world \<Rightarrow> (js_error + http_response) \<times> stripe_world" where
  "do_fetch env req w = (fetch env req, w\<lparr>requests := requests w @ [req]\<rparr>)"

text \<open>
  The message of the errors that lines 140, 166, 201, 260 and 297 throw:
  \<^verbatim>\<open>${what}: ${response.status} - ${text}\<close>.
\<close>

definition api_error :: "stripe_env \<Rightarrow> string \<Rightarrow> http_response \<Rightarrow> js_error" where
  "api_error env what response =
     Error (what @ '': '' @ print_number env (of_nat (status response)) @ '' - ''
            @ response_text response)"

text \<open>\<^verbatim>\<open>s.split('/').pop()\<close>: what follows the last slash.\<close>

definition last_segment :: "string \<Rightarrow> string" where
  "last_segment s = rev (takeWhile (\<lambda>c. c \<noteq> CHR ''/'') (rev s))"

text \<open>\<^verbatim>\<open>v.length\<close> and \<^verbatim>\<open>v[0]\<close> of a value that is not \<^verbatim>\<open>undefined\<close> or \<^verbatim>\<open>null\<close>.\<close>

fun length_of :: "json \<Rightarrow> json" where
  "length_of (JArr xs) = JNum (of_nat (length xs))"
| "length_of (JStr s) = JNum (of_nat (length s))"
| "length_of (JObj ms) = (case map_of ms ''length'' of Some v \<Rightarrow> v | None \<Rightarrow> JUndefined)"
| "length_of v = JUndefined"

fun element_0 :: "json \<Rightarrow> json" where
  "element_0 (JArr xs) = (case xs of [] \<Rightarrow> JUndefined | x # rest \<Rightarrow> x)"
| "element_0 (JStr s) = (case s of [] \<Rightarrow> JUndefined | c # rest \<Rightarrow> JStr [c])"
| "element_0 (JObj ms) = (case map_of ms ''0'' of Some v \<Rightarrow> v | None \<Rightarrow> JUndefined)"
| "element_0 v = JUndefined"

text \<open>
  Lines 210--222: the invoice lines, one for each stored item. The unit price is the
  stored one times 100, as the engine multiplies.
\<close>

definition invoice_line ::
  "stripe_env \<Rightarrow> json \<Rightarrow> bool \<Rightarrow> json \<Rightarrow> js_error + json" where
  "invoice_line env currency isNorwegian item =
     and_then (get_prop item ''name'') (\<lambda>name.
     and_then (get_prop item ''id'') (\<lambda>ident.
     and_then (template_string (print_number env) ident) (\<lambda>ident_text.
     and_then (get_prop item ''unit_price'') (\<lambda>unit_price.
     and_then (get_prop item ''quantity'') (\<lambda>quantity.
     Inr (JObj [(''currency'', currency),
                (''vatType'', JStr (if isNorwegian then ''HIGH'' else ''EXEMPT_IMPORT_EXPORT'')),
                (''incomeAccount'', JNum (if isNorwegian then 3010 else 3110)),
                (''productName'', name),
                (''description'', name),
                (''comment'', JStr (''#'' @ ident_text)),
                (''unitPrice'',
                   number_json (times_100 (ToNumber (coerce_number env) unit_price))),
                (''quantity'', quantity)]))))))"

definition invoice_lines ::
  "stripe_env \<Rightarrow> json \<Rightarrow> bool \<Rightarrow> json list \<Rightarrow> js_error + json list" where
  "invoice_lines env currency isNorwegian its =
     map_throwing (invoice_line env currency isNorwegian) its"

text \<open>
  The two texts that depend on the customer's country (lines 241--243 and 270--272).
  A character outside ASCII is written as its UTF-8 bytes.
\<close>

definition invoiceText :: "bool \<Rightarrow> string" where
  "invoiceText isNorwegian =
     (if isNorwegian
      then ''Faktura for produkter kj'' @ [CHR 0xC3, CHR 0xB8] @ ''pt via Pattern Magicians.''
      else ''Invoice for products purchased via Pattern Magicians.'')"

definition messageText :: "bool \<Rightarrow> string \<Rightarrow> string" where
  "messageText isNorwegian customerName =
     (if isNorwegian
      then ''Hei '' @ customerName @ '','' @ [CHR 0x0A, CHR 0x0A]
           @ ''DU HAR ALLEREDE BETALT, IKKE PR'' @ [CHR 0xC3, CHR 0x98] @ ''V ''
           @ [CHR 0xC3, CHR 0x85] @ '' BETAL IGJEN'' @ [CHR 0x0A, CHR 0x0A]
           @ ''Vi har mottatt din betaling.'' @ [CHR 0x0A, CHR 0x0A]
           @ ''Her er din kvittering (PDF).'' @ [CHR 0x0A, CHR 0x0A]
           @ ''Takk for din st'' @ [CHR 0xC3, CHR 0xB8] @ ''tte!''
      else ''Dear '' @ customerName @ '','' @ [CHR 0x0A, CHR 0x0A]
           @ ''YOU HAVE PAID, PLEASE DO NOT TRY TO PAY AGAIN'' @ [CHR 0x0A, CHR 0x0A]
           @ ''Please find attached your receipt (PDF) for your recent purchase.''
           @ [CHR 0x0A, CHR 0x0A]
           @ ''Thank you for your support!'')"

text \<open>
  Lines 154--207: the Fiken contact of the customer, found or created. \<open>customer_text\<close>
  is \<^verbatim>\<open>${customerId}\<close>. The result is the contact's identifier.
\<close>

definition fiken_contact ::
  "stripe_env \<Rightarrow> json \<Rightarrow> string \<Rightarrow> json \<Rightarrow> json \<Rightarrow> json \<Rightarrow> json \<Rightarrow> bool \<Rightarrow> stripe_world \<Rightarrow>
     (js_error + json) \<times> stripe_world" where
  "fiken_contact env customerId customer_text customerName customerEmail customerAddress
     customerCountry isNorwegian w =
    after (do_fetch env
      \<lparr>http_method = ''GET'',
       url = ''https://api.fiken.no/api/v2/companies/'' @ companySlug env
             @ ''/contacts?memberNumberString='' @ customer_text,
       bearer = fikenToken env,
       request_body = None\<rparr> w) (\<lambda>getContactsResponse w.
    if \<not> ok getContactsResponse then
      (Inl (api_error env ''Fiken API error (get contacts)'' getContactsResponse), w)
    else
    raising (JSON_parse (json_body getContactsResponse)) w (\<lambda>contacts.
    if truthy contacts \<and> greater_than_0 (ToNumber (coerce_number env) (length_of contacts)) then
      raising (get_prop (element_0 contacts) ''id'') w (\<lambda>contact_ident.
      raising (get_prop (element_0 contacts) ''contactId'') w (\<lambda>contact_contactId.
      let newContactId = js_or contact_ident contact_contactId in
      raising (template_string (print_number env) newContactId) w (\<lambda>logged.
      (Inr newContactId, w))))
    else
    raising (get_prop customerAddress ''line1'') w (\<lambda>line1.
    raising (get_prop customerAddress ''line2'') w (\<lambda>line2.
    raising (get_prop customerAddress ''city'') w (\<lambda>city.
    raising (get_prop customerAddress ''postal_code'') w (\<lambda>postal_code.
    let contactPayload = JObj
          [(''customer'', JBool True),
           (''name'', customerName),
           (''email'', customerEmail),
           (''memberNumberString'', customerId),
           (''language'', JStr (if isNorwegian then ''Norwegian'' else ''English'')),
           (''address'', JObj
              [(''streetAddress'', line1),
               (''streetAddressLine2'', line2),
               (''city'', city),
               (''postCode'', postal_code),
               (''country'', customerCountry)])]
    in
    after (do_fetch env
      \<lparr>http_method = ''POST'',
       url = ''https://api.fiken.no/api/v2/companies/'' @ companySlug env @ ''/contacts'',
       bearer = fikenToken env,
       request_body = Some (JSON_stringify contactPayload)\<rparr> w) (\<lambda>createContactResponse w.
    if \<not> ok createContactResponse then
      (Inl (api_error env ''Fiken API error (create contact)'' createContactResponse), w)
    else
    case location createContactResponse of
      None \<Rightarrow> (Inl (Error ''Fiken API did not return Location header for created contact''), w)
    | Some locationHeader \<Rightarrow>
        if locationHeader = [] then
          (Inl (Error ''Fiken API did not return Location header for created contact''), w)
        else (Inr (JStr (last_segment locationHeader)), w))))))))"

text \<open>
  Lines 129--307: what \<^verbatim>\<open>processStripeEvent\<close> does once the order is found: the
  customer from Stripe, the contact in Fiken, the invoice and its dispatch by email.
\<close>

definition invoice_order ::
  "stripe_env \<Rightarrow> json \<Rightarrow> json \<Rightarrow> json \<Rightarrow> string \<Rightarrow> order_record \<Rightarrow> stripe_world \<Rightarrow>
     (js_error + response) \<times> stripe_world" where
  "invoice_order env charge currency customerId konverzkyOrderId orderRecord w =
    raising (template_string (print_number env) customerId) w (\<lambda>customer_text.
    after (do_fetch env
      \<lparr>http_method = ''GET'',
       url = ''https://api.stripe.com/v1/customers/'' @ customer_text,
       bearer = stripeApiKey env,
       request_body = None\<rparr> w) (\<lambda>stripeCustomerResponse w.
    if \<not> ok stripeCustomerResponse then
      (Inl (api_error env ''Stripe API error (fetch customer)'' stripeCustomerResponse), w)
    else
    raising (JSON_parse (json_body stripeCustomerResponse)) w (\<lambda>stripeCustomer.
    raising (get_prop stripeCustomer ''email'') w (\<lambda>email.
    raising (get_prop charge ''receipt_email'') w (\<lambda>receipt_email.
    raising (get_prop stripeCustomer ''name'') w (\<lambda>name.
    raising (get_prop stripeCustomer ''address'') w (\<lambda>address.
    let customerEmail = js_or email receipt_email;
        customerName = js_or name customerEmail;
        customerAddress = js_or address (JObj [])
    in
    raising (get_prop customerAddress ''country'') w (\<lambda>country.
    raising (get_prop customerAddress ''state'') w (\<lambda>state.
    let customerCountry = js_or country state in
    if \<not> truthy customerEmail then
      raising (charge_id_text env charge) w (\<lambda>id_text.
      (Inl (Error (''No customer email found for Charge '' @ id_text @ ''.'')), w))
    else if \<not> truthy customerCountry then
      raising (charge_id_text env charge) w (\<lambda>id_text.
      (Inl (Error (''No customer country found for Charge '' @ id_text @ ''.'')), w))
    else
    raising (toUpperCase customerCountry) w (\<lambda>upper.
    let isNorwegian = (upper \<in> set [''NO'', ''NORWAY'', ''NORGE'', ''NOREG'', ''NOR'']) in
    after (fiken_contact env customerId customer_text customerName customerEmail customerAddress
             customerCountry isNorwegian w) (\<lambda>newContactId w.
    raising (invoice_lines env currency isNorwegian (items orderRecord)) w (\<lambda>lines.
    raising (toUpperCase currency) w (\<lambda>currency_upper.
    let invoicePayload = JObj
          [(''issueDate'', JStr (issue_date env)),
           (''dueDate'', JStr (due_date env)),
           (''lines'', JArr lines),
           (''bankAccountCode'', JStr (bankAccountCode env)),
           (''paymentAccount'', JStr (paymentAccount env)),
           (''cash'', JBool True),
           (''customerId'', newContactId),
           (''currency'', JStr currency_upper),
           (''invoiceText'', JStr (invoiceText isNorwegian)),
           (''yourReference'', JStr konverzkyOrderId)]
    in
    after (do_fetch env
      \<lparr>http_method = ''POST'',
       url = ''https://api.fiken.no/api/v2/companies/'' @ companySlug env @ ''/invoices'',
       bearer = fikenToken env,
       request_body = Some (JSON_stringify invoicePayload)\<rparr> w) (\<lambda>createInvoiceResponse w.
    if \<not> ok createInvoiceResponse then
      (Inl (api_error env ''Fiken API error (create invoice)'' createInvoiceResponse), w)
    else
    case location createInvoiceResponse of
      None \<Rightarrow> (Inl (Error ''Fiken API did not return Location header for created invoice''), w)
    | Some invoiceLocationHeader \<Rightarrow>
    if invoiceLocationHeader = [] then
      (Inl (Error ''Fiken API did not return Location header for created invoice''), w)
    else
    let newInvoiceId = last_segment invoiceLocationHeader in
    raising (template_string (print_number env) customerName) w (\<lambda>customerName_text.
    let sendInvoicePayload = JObj
          [(''invoiceId'', JStr newInvoiceId),
           (''recipientEmail'', customerEmail),
           (''recipientName'', customerName),
           (''message'', JStr (messageText isNorwegian customerName_text)),
           (''method'', JArr [JStr ''email'']),
           (''subject'', JStr ''Your receipt from Pattern Magicians''),
           (''emailSendOption'', JStr ''attachment'')]
    in
    after (do_fetch env
      \<lparr>http_method = ''POST'',
       url = ''https://api.fiken.no/api/v2/companies/'' @ companySlug env @ ''/invoices/send'',
       bearer = fikenToken env,
       request_body = Some (JSON_stringify sendInvoicePayload)\<rparr> w) (\<lambda>sendInvoiceResponse w.
    if \<not> ok sendInvoiceResponse then
      (Inl (api_error env ''Fiken API error (send invoice)'' sendInvoiceResponse), w)
    else
      (Inr (respond 200 (JObj
         [(''message'',
           JStr ''Contact and invoice created and sent via email successfully'')])),
       w)))))))))))))))))"

text \<open>
  \<^verbatim>\<open>processStripeEvent\<close>, lines 62--126, statement by statement. \<open>Inl\<close> is an
  exception thrown to the caller. The steps whose result is not used are the template
  literals that lines 84, 89 and 102 print on the console.
\<close>

definition processStripeEvent ::
  "stripe_env \<Rightarrow> json \<Rightarrow> stripe_world \<Rightarrow> (js_error + response) \<times> stripe_world" where
  "processStripeEvent env stripeEvent w =
    (case config_error env of
       Some error \<Rightarrow> (Inl error, w)
     | None \<Rightarrow>
     raising (get_prop stripeEvent ''data'') w (\<lambda>data.
     raising (get_prop data ''object'') w (\<lambda>charge.
     if \<not> truthy charge then (Inl (Error ''Charge object missing in Stripe event''), w)
     else
     raising (get_prop charge ''currency'') w (\<lambda>charge_currency.
     raising (if truthy charge_currency then map_sum (\<lambda>e. e) JStr (toUpperCase charge_currency)
              else Inr JNull) w (\<lambda>currency.
     if \<not> truthy currency then
       raising (charge_id_text env charge) w (\<lambda>id_text.
       (Inl (Error (''Missing amount or currency on Charge '' @ id_text @ ''.'')), w))
     else
     raising (get_prop stripeEvent ''type'') w (\<lambda>event_type.
     if event_type \<noteq> JStr ''charge.succeeded'' then
       raising (template_string (print_number env) event_type) w (\<lambda>logged.
       (Inr (respond 200 (JObj [(''message'', event_type)])), w))
     else
     raising (get_prop charge ''metadata'') w (\<lambda>metadata.
     raising (if truthy metadata then get_prop metadata ''order_number'' else Inr JUndefined) w
       (\<lambda>order_number.
     if \<not> truthy metadata \<or> \<not> truthy order_number then
       raising (charge_id_text env charge) w (\<lambda>logged.
       after (sendManualOrderNotification env charge w) (\<lambda>sent w.
       (Inr (respond 200 (JObj
          [(''message'', JStr ''Manual order handling notification sent'')])), w)))
     else
     raising (get_prop charge ''customer'') w (\<lambda>customerId.
     if \<not> truthy customerId then
       raising (charge_id_text env charge) w (\<lambda>id_text.
       (Inl (Error (''No customer ID found on Charge '' @ id_text @ ''.'')), w))
     else
     raising (template_string (print_number env) order_number) w (\<lambda>logged.
     raising (to_string (print_number env) order_number) w (\<lambda>konverzkyOrderId.
     let w = w\<lparr>gets := gets w @ [konverzkyOrderId]\<rparr> in
     case dynamo_get env konverzkyOrderId of
       Inl err \<Rightarrow> (Inl (Error ''Error reading from database''), w)
     | Inr None \<Rightarrow>
         let retryPayload = JObj [(''order_number'', JStr konverzkyOrderId),
                                  (''stripeEvent'', stripeEvent),
                                  (''timestamp'', JStr (iso_now env))]
         in
         after (sendRetryMessage env retryPayload w) (\<lambda>sent w.
         (Inr (respond 200 (JObj
            [(''error'', JStr ''Order not found, event queued for retry'')])), w))
     | Inr (Some orderRecord) \<Rightarrow>
         invoice_order env charge currency customerId konverzkyOrderId orderRecord w
     )))))))))))"

text \<open>
  The body of one SQS record is the JSON text of
  \<^verbatim>\<open>{ order_number, stripeEvent, timestamp }\<close> (lines 316--319).
\<close>

definition process_record ::
  "stripe_env \<Rightarrow> sqs_record \<Rightarrow> stripe_world \<Rightarrow> (js_error + response) \<times> stripe_world" where
  "process_record env record w =
     raising (JSON_parse (record_body record)) w (\<lambda>payload.
     raising (get_prop payload ''stripeEvent'') w (\<lambda>stripeEvent.
     processStripeEvent env stripeEvent w))"

text \<open>
  \<^verbatim>\<open>Promise.all\<close> over the records. The records are taken one after the other, in
  order (how their steps interleave is not modelled); every record is processed, also
  after one has failed, and a failure makes the whole call fail.
\<close>

fun process_records ::
  "stripe_env \<Rightarrow> sqs_record list \<Rightarrow> stripe_world \<Rightarrow> (js_error + response list) \<times> stripe_world" where
  "process_records env [] w = (Inr [], w)"
| "process_records env (r # rs) w =
     (let (first, w1) = process_record env r w;
          (others, w2) = process_records env rs w1
      in (and_then first (\<lambda>x. and_then others (\<lambda>xs. Inr (x # xs))), w2))"

text \<open>
  A response inside \<^verbatim>\<open>results\<close>: its body is a string, the JSON text that
  \<^verbatim>\<open>JSON.stringify\<close> has returned.
\<close>

definition response_json :: "stripe_env \<Rightarrow> response \<Rightarrow> json" where
  "response_json env r =
     JObj [(''statusCode'', JNum (of_nat (statusCode r))),
           (''body'', (case body r of
                         JsonText v \<Rightarrow> JStr (json_chars (print_number env) v)
                       | NotJson \<Rightarrow> JUndefined))]"

text \<open>The \<^verbatim>\<open>try\<close> block of the handler (lines 313--330).\<close>

definition handler_try ::
  "stripe_env \<Rightarrow> lambda_event \<Rightarrow> stripe_world \<Rightarrow> (js_error + response) \<times> stripe_world" where
  "handler_try env event w =
    (case event of
       SqsEvent records \<Rightarrow>
         after (process_records env records w) (\<lambda>results w.
         (Inr (respond 200 (JObj
            [(''message'', JStr ''All SQS records processed successfully''),
             (''results'', JArr (map (response_json env) results))])), w))
     | DirectEvent text \<Rightarrow>
         raising (JSON_parse text) w (\<lambda>stripeEvent.
         processStripeEvent env stripeEvent w))"

text \<open>
  The handler (lines 310--338): whatever the \<^verbatim>\<open>try\<close> block throws is answered with
  500 and the error's message. \<open>Inl\<close> would be an exception that leaves the handler.
  The \<^verbatim>\<open>context\<close> that the Lambda runtime passes is an object.
\<close>

definition stripe_handler ::
  "stripe_env \<Rightarrow> lambda_event \<Rightarrow> stripe_world \<Rightarrow> (js_error + response) \<times> stripe_world" where
  "stripe_handler env event w =
    (case handler_try env event w of
       (Inr r, w') \<Rightarrow> (Inr r, w')
     | (Inl error, w') \<Rightarrow> (Inr (respond 500 (JObj [(''error'', JStr (message error))])), w'))"

section \<open>Notions used in the properties, and the scenarios of the specification\<close>

text \<open>A value that is neither an array nor an object.\<close>

fun primitive :: "json \<Rightarrow> bool" where
  "primitive (JArr xs) = False"
| "primitive (JObj ms) = False"
| "primitive v = True"



text \<open>
  Scenario A's item as the payload carries it: the number \<^verbatim>\<open>9.99\<close> is the binary64
  nearest to \<open>999 / 100\<close>.
\<close>

definition widget :: json where
  "widget =
     JObj [(''name'', JStr ''Widget''), (''id'', JStr ''w1''), (''quantity'', JNum 2),
           (''unit_price'', JNum (round_binary64 (999 / 100))), (''vat'', JNum 0)]"





text \<open>
  An object that cannot be converted to a string: the value of the JSON text
  \<^verbatim>\<open>{"toString": 1}\<close>.
\<close>

definition unprintable :: json where
  "unprintable = JObj [(''toString'', JNum 1)]"

text \<open>
  Surroundings of the Stripe processor for the scenarios: every variable set, a table
  that holds no order, a queue and a topic that accept every message, and no remote
  service in reach. No number is printed or coerced in the scenarios, so the two engine
  functions are constant functions.
\<close>

definition stripe_env_ok :: stripe_env where
  "stripe_env_ok =
     \<lparr>bankAccountCode = ''1920:10001'',
      paymentAccount = ''1920:10001'',
      companySlug = ''pattern-magicians'',
      fikenToken = ''fiken-token'',
      stripeApiKey = ''stripe-key'',
      TABLE_NAME = ''KonverzkyOrders'',
      RETRY_QUEUE_URL = ''https://sqs.example/StripeRetryQueue'',
      SNS_TOPIC_ARN = ''arn:aws:sns:manual-orders'',
      iso_now = ''2025-01-01T00:00:00.000Z'',
      issue_date = ''2025-01-01'',
      due_date = ''2025-01-31'',
      print_number = (\<lambda>x. ''0''),
      coerce_number = (\<lambda>v. NaN),
      dynamo_get = (\<lambda>k. Inr None),
      sqs_rejects = (\<lambda>m. None),
      sns_rejects = (\<lambda>m. None),
      fetch = (\<lambda>r. Inl (TypeError ''fetch failed''))\<rparr>"

definition idle :: stripe_world where
  "idle = \<lparr>gets = [], queue = [], notifications = [], requests = []\<rparr>"

text \<open>A Stripe event of a type, about a charge.\<close>

definition stripe_event :: "string \<Rightarrow> json \<Rightarrow> json" where
  "stripe_event event_type charge =
     JObj [(''id'', JStr ''evt_1''), (''type'', JStr event_type),
           (''data'', JObj [(''object'', charge)])]"

text \<open>
  The charges of the scenarios: B names order \<^verbatim>\<open>999\<close>; C has no metadata (and no
  customer either); D is a failed charge. Then a failed charge without a currency, and a
  charge like C's whose identifier is the object that cannot be printed.
\<close>

definition charge_B :: json where
  "charge_B =
     JObj [(''id'', JStr ''ch_B''), (''currency'', JStr ''usd''), (''customer'', JStr ''cus_1''),
           (''metadata'', JObj [(''order_number'', JStr ''999'')])]"

definition charge_C :: json where
  "charge_C = JObj [(''id'', JStr ''ch_C''), (''currency'', JStr ''usd'')]"

definition charge_D :: json where
  "charge_D =
     JObj [(''id'', JStr ''ch_D''), (''currency'', JStr ''usd''), (''customer'', JStr ''cus_1''),
           (''metadata'', JObj [(''order_number'', JStr ''123'')])]"

definition charge_without_currency :: json where
  "charge_without_currency =
     JObj [(''id'', JStr ''ch_E''), (''customer'', JStr ''cus_1''),
           (''metadata'', JObj [(''order_number'', JStr ''123'')])]"

definition charge_with_odd_id :: json where
  "charge_with_odd_id = JObj [(''id'', unprintable), (''currency'', JStr ''usd'')]"

text \<open>The \<^verbatim>\<open>attempt\<close> property of the envelope that a queued message carries.\<close>

definition envelope_attempt :: "sqs_message \<Rightarrow> js_error + json" where
  "envelope_attempt m =
     and_then (JSON_parse (MessageBody m)) (\<lambda>envelope. get_prop envelope ''attempt'')"

text \<open>A stored item priced \<^verbatim>\<open>19.99\<close>, the example of the comment in line 220.\<close>

definition item_19_99 :: json where
  "item_19_99 =
     JObj [(''name'', JStr ''Widget''), (''id'', JStr ''w1''), (''quantity'', JNum 2),
           (''unit_price'', JNum (round_binary64 (1999 / 100))), (''vat'', JNum 0)]"

text \<open>
  Scenario A's surroundings: the table holds order \<^verbatim>\<open>123\<close> with one item; Stripe knows
  the customer, who lives in the United States; Fiken has no contact for her, creates
  one, creates the invoice and sends it.
\<close>

definition shop_fetch :: "http_request \<Rightarrow> js_error + http_response" where
  "shop_fetch req =
     (if url req = ''https://api.stripe.com/v1/customers/cus_1'' then
        Inr \<lparr>ok = True, status = 200, response_text = [],
             json_body = JsonText (JObj
               [(''email'', JStr ''ann@example.com''), (''name'', JStr ''Ann''),
                (''address'', JObj [(''country'', JStr ''US'')])]),
             location = None\<rparr>
      else if http_method req = ''GET'' then
        Inr \<lparr>ok = True, status = 200, response_text = ''[]'',
             json_body = JsonText (JArr []), location = None\<rparr>
      else if url req = ''https://api.fiken.no/api/v2/companies/pattern-magicians/contacts'' then
        Inr \<lparr>ok = True, status = 201, response_text = [], json_body = NotJson,
             location =
               Some ''https://api.fiken.no/api/v2/companies/pattern-magicians/contacts/77''\<rparr>
      else if url req = ''https://api.fiken.no/api/v2/companies/pattern-magicians/invoices'' then
        Inr \<lparr>ok = True, status = 201, response_text = [], json_body = NotJson,
             location =
               Some ''https://api.fiken.no/api/v2/companies/pattern-magicians/invoices/555''\<rparr>
      else
        Inr \<lparr>ok = True, status = 200, response_text = [], json_body = NotJson,
             location = None\<rparr>)"

definition shop_env :: "json \<Rightarrow> stripe_env" where
  "shop_env item = stripe_env_ok
     \<lparr>dynamo_get := (\<lambda>k. if k = ''123'' then
         Inr (Some \<lparr>order_id = ''123'', items = [item],
                    last_updated = ''2025-01-01T00:00:00.000Z'',
                    webhook_types = Some [JStr ''order_paid'']\<rparr>)
         else Inr None),
      fetch := shop_fetch\<rparr>"

text \<open>The \<^verbatim>\<open>lines\<close> of the invoice that a request carries.\<close>

definition submitted_lines :: "http_request \<Rightarrow> js_error + json" where
  "submitted_lines req =
     (case request_body req of
        None \<Rightarrow> Inr JUndefined
      | Some text \<Rightarrow> and_then (JSON_parse text) (\<lambda>payload. get_prop payload ''lines''))"

section \<open>Properties of the order consumer\<close>

text \<open>The two sequencing combinators, as case distinctions.\<close>

lemma raising_case:
  "raising m w f = (case m of Inl e \<Rightarrow> (Inl e, w) | Inr x \<Rightarrow> f x)"
  by (cases m) auto

lemma after_case:
  "after m f = (case m of (Inl e, w) \<Rightarrow> (Inl e, w) | (Inr x, w) \<Rightarrow> f x w)"
proof (cases m)
  case (Pair r w)
  then show ?thesis by (cases r) auto
qed









lemma allowed_truthy: "array_includes allowedWebhookTypes t \<Longrightarrow> truthy t"
  by (auto simp: array_includes_def allowedWebhookTypes_def)


text \<open>
  A payload that passes the checks of lines 27--52 reaches the upsert, with its tag, the
  printed identifier and the parsed items.
\<close>

lemma handler_runs_upsert:
  assumes "JSON_parse (event_body event) = Inr payload"
    and "get_prop payload ''webhook_type'' = Inr tag"
    and "array_includes allowedWebhookTypes tag"
    and "get_prop payload ''order'' = Inr order" "truthy order"
    and "get_prop order ''id'' = Inr ident" "truthy ident"
    and "to_string (number_to_string env) ident = Inr k"
    and "get_prop order ''items'' = Inr (JArr raw)"
    and "map_throwing parse_item raw = Inr its"
  shows "konverzky_handler env event w =
           upsert env tag k its (console_put LOG ''Received event:'' w)"
  using assms allowed_truthy[OF assms(3)]
  by (simp add: konverzky_handler_def Let_def)















section \<open>Properties of the Stripe event processor\<close>

lemma truthy_defined: "truthy v \<Longrightarrow> v \<noteq> JUndefined"
  by (cases v) auto

lemma get_prop_defined: "get_prop v k = Inr x \<Longrightarrow> v \<noteq> JUndefined"
  by (cases v) auto

lemma to_string_template:
  "to_string ns v = Inr k \<Longrightarrow> template_string ns v = Inr k"
  by (cases v) (auto split: if_splits)

subsection \<open>Events that are not a succeeded charge\<close>

text \<open>
  Claim C3, as the code has it. An event whose type is not \<^verbatim>\<open>charge.succeeded\<close> leaves
  no trace: no key is read from the table, nothing is queued, no notification and no
  HTTP request is sent. When the configuration is complete and the event carries a
  charge, the outcome depends on the currency, which is checked (line 79) before the
  type (line 83). Without a currency the function throws: the error of line 80, whose
  message names the charge, or the error of converting the charge's identifier to a
  string. With a currency that is a non-empty string it answers 200 with the type as
  the message, once line 84 has converted the type to a string for the console (an
  error of this conversion is thrown).
\<close>

theorem other_event_types_leave_no_trace:
  assumes "get_prop stripeEvent ''type'' = Inr t" "t \<noteq> JStr ''charge.succeeded''"
  shows "snd (processStripeEvent env stripeEvent w) = w
     \<and> (config_error env = None \<and> get_prop stripeEvent ''data'' = Inr data
          \<and> get_prop data ''object'' = Inr charge \<and> truthy charge
          \<and> get_prop charge ''currency'' = Inr cur \<longrightarrow>
        (\<not> truthy cur \<longrightarrow> fst (processStripeEvent env stripeEvent w) =
            (case charge_id_text env charge of
               Inl e \<Rightarrow> Inl e
             | Inr s \<Rightarrow> Inl (Error (''Missing amount or currency on Charge '' @ s @ ''.''))))
        \<and> (\<forall>c. cur = JStr c \<and> c \<noteq> [] \<longrightarrow> fst (processStripeEvent env stripeEvent w) =
            (case template_string (print_number env) t of
               Inl e \<Rightarrow> Inl e
             | Inr s \<Rightarrow> Inr \<lparr>statusCode = 200, body = JsonText (to_json (JObj [(''message'', t)]))\<rparr>)))"
  using assms
  by (auto simp add: processStripeEvent_def raising_case respond_def JSON_stringify_def
      split: option.splits sum.splits)

lemma scenario_D_facts:
  "config_error stripe_env_ok = None"
  "get_prop (stripe_event ''charge.failed'' charge_D) ''data'' = Inr (JObj [(''object'', charge_D)])"
  "get_prop (JObj [(''object'', charge_D)]) ''object'' = Inr charge_D"
  "truthy charge_D" "get_prop charge_D ''currency'' = Inr (JStr ''usd'')"
  "get_prop (stripe_event ''charge.failed'' charge_D) ''type'' = Inr (JStr ''charge.failed'')"
  "JStr ''charge.failed'' \<noteq> JStr ''charge.succeeded''"
  by (simp_all add: config_error_def stripe_env_ok_def stripe_event_def charge_D_def)

text \<open>Scenario D: a failed charge is ignored with 200, and nothing else happens.\<close>

theorem other_event_types_leave_no_trace_witness:
  "get_prop (stripe_event ''charge.failed'' charge_D) ''type'' = Inr (JStr ''charge.failed'')
   \<and> JStr ''charge.failed'' \<noteq> JStr ''charge.succeeded''
   \<and> processStripeEvent stripe_env_ok (stripe_event ''charge.failed'' charge_D) idle =
       (Inr \<lparr>statusCode = 200, body = JsonText (JObj [(''message'', JStr ''charge.failed'')])\<rparr>,
        idle)"
proof -
  note fact = other_event_types_leave_no_trace[OF scenario_D_facts(6,7), of stripe_env_ok idle
      "JObj [(''object'', charge_D)]" charge_D "JStr ''usd''"]
  have a: "snd (processStripeEvent stripe_env_ok (stripe_event ''charge.failed'' charge_D) idle)
      = idle"
    using fact by blast
  have b: "fst (processStripeEvent stripe_env_ok (stripe_event ''charge.failed'' charge_D) idle) =
       Inr \<lparr>statusCode = 200, body = JsonText (JObj [(''message'', JStr ''charge.failed'')])\<rparr>"
    using fact scenario_D_facts(1-5) by simp
  show ?thesis using a b scenario_D_facts(6,7) by (simp add: prod_eq_iff)
qed

text \<open>
  The claim as the specification states it fails on a failed charge that carries no
  currency: the function throws, and the handler answers 500.
\<close>

theorem failed_charge_without_currency_is_an_error:
  "get_prop (stripe_event ''charge.failed'' charge_without_currency) ''type''
     = Inr (JStr ''charge.failed'')
   \<and> processStripeEvent stripe_env_ok (stripe_event ''charge.failed'' charge_without_currency) idle
     = (Inl (Error ''Missing amount or currency on Charge ch_E.''), idle)
   \<and> stripe_handler stripe_env_ok
       (DirectEvent (JsonText (stripe_event ''charge.failed'' charge_without_currency))) idle
     = (Inr \<lparr>statusCode = 500,
             body = JsonText (JObj
               [(''error'', JStr ''Missing amount or currency on Charge ch_E.'')])\<rparr>, idle)"
  by (simp add: stripe_handler_def handler_try_def processStripeEvent_def config_error_def
      stripe_env_ok_def stripe_event_def charge_without_currency_def charge_id_text_def
      respond_def JSON_stringify_def)

subsection \<open>A succeeded charge without an order reference\<close>

text \<open>
  What the function does with a succeeded charge without an order reference, when the
  identifier of the charge can be converted to a string and when it cannot.
\<close>

lemma missing_reference_outcome:
  assumes "config_error env = None"
    and "get_prop stripeEvent ''data'' = Inr data" "get_prop data ''object'' = Inr charge"
    and "truthy charge" "get_prop charge ''currency'' = Inr (JStr c)" "c \<noteq> []"
    and "get_prop stripeEvent ''type'' = Inr (JStr ''charge.succeeded'')"
    and "get_prop charge ''metadata'' = Inr metadata"
    and "\<not> truthy metadata \<or> (get_prop metadata ''order_number'' = Inr n \<and> \<not> truthy n)"
    and "get_prop charge ''id'' = Inr ident"
    and "template_string (print_number env) ident = Inr s"
    and "sns_rejects env
      \<lparr>TopicArn = SNS_TOPIC_ARN env,
        Subject = ''Manual order handling required for charge '' @ s,
        Message = JsonText (JObj
          [(''message'',
            JStr ''A charge requires manual order handling due to missing metadata''),
           (''charge'', to_json charge),
           (''timestamp'', JStr (iso_now env))])\<rparr> = None"
  shows "processStripeEvent env stripeEvent w =
     (Inr \<lparr>statusCode = 200,
        body = JsonText (JObj
          [(''message'', JStr ''Manual order handling notification sent'')])\<rparr>,
      w\<lparr>notifications := notifications w @
        [\<lparr>TopicArn = SNS_TOPIC_ARN env,
        Subject = ''Manual order handling required for charge '' @ s,
        Message = JsonText (JObj
          [(''message'',
            JStr ''A charge requires manual order handling due to missing metadata''),
           (''charge'', to_json charge),
           (''timestamp'', JStr (iso_now env))])\<rparr>]\<rparr>)"
  using assms truthy_defined[OF assms(4)]
  by (auto simp add: processStripeEvent_def raising_case sendManualOrderNotification_def
      charge_id_text_def respond_def JSON_stringify_def)

lemma missing_reference_unprintable:
  assumes "config_error env = None"
    and "get_prop stripeEvent ''data'' = Inr data" "get_prop data ''object'' = Inr charge"
    and "truthy charge" "get_prop charge ''currency'' = Inr (JStr c)" "c \<noteq> []"
    and "get_prop stripeEvent ''type'' = Inr (JStr ''charge.succeeded'')"
    and "get_prop charge ''metadata'' = Inr metadata"
    and "\<not> truthy metadata \<or> (get_prop metadata ''order_number'' = Inr n \<and> \<not> truthy n)"
    and "get_prop charge ''id'' = Inr ident"
    and "template_string (print_number env) ident = Inl e"
  shows "processStripeEvent env stripeEvent w = (Inl e, w)"
  using assms
  by (auto simp add: processStripeEvent_def raising_case charge_id_text_def)

text \<open>
  Claim C5, as the code has it. A \<^verbatim>\<open>charge.succeeded\<close> event that is valid but for
  its order reference (the configuration is complete, the charge has a currency, and
  \<^verbatim>\<open>metadata\<close> or \<^verbatim>\<open>metadata.order_number\<close> is missing) is delivered to the
  handler. Line 89 and the subject of line 44 convert the identifier of the charge to a
  string. When this conversion throws, the handler answers 500 with the message of the
  error, and nothing is published. When it gives a string and the topic accepts the
  notification, one notification is published to the topic of
  \<^verbatim>\<open>MANUAL_ORDER_SNS_TOPIC\<close>, its subject naming the charge and its message holding
  the charge and the time; the answer is 200 and nothing else happens (nothing is
  queued). Delivered again, the same event is answered with 200 again and the same
  notification is published a second time.
\<close>

theorem missing_order_reference_notifies:
  assumes "config_error env = None"
    and "get_prop stripeEvent ''data'' = Inr data" "get_prop data ''object'' = Inr charge"
    and "truthy charge" "get_prop charge ''currency'' = Inr (JStr c)" "c \<noteq> []"
    and "get_prop stripeEvent ''type'' = Inr (JStr ''charge.succeeded'')"
    and "get_prop charge ''metadata'' = Inr metadata"
    and "\<not> truthy metadata \<or> (get_prop metadata ''order_number'' = Inr n \<and> \<not> truthy n)"
    and "get_prop charge ''id'' = Inr ident"
  shows "(\<forall>e. template_string (print_number env) ident = Inl e \<longrightarrow>
            stripe_handler env (DirectEvent (JsonText stripeEvent)) w =
              (Inr \<lparr>statusCode = 500,
                    body = JsonText (JObj [(''error'', JStr (message e))])\<rparr>, w))
       \<and> (\<forall>s. template_string (print_number env) ident = Inr s
             \<and> sns_rejects env
      \<lparr>TopicArn = SNS_TOPIC_ARN env,
        Subject = ''Manual order handling required for charge '' @ s,
        Message = JsonText (JObj
          [(''message'',
            JStr ''A charge requires manual order handling due to missing metadata''),
           (''charge'', to_json charge),
           (''timestamp'', JStr (iso_now env))])\<rparr> = None \<longrightarrow>
            stripe_handler env (DirectEvent (JsonText stripeEvent)) w =
              (Inr \<lparr>statusCode = 200,
        body = JsonText (JObj
          [(''message'', JStr ''Manual order handling notification sent'')])\<rparr>,
               w\<lparr>notifications := notifications w @
        [\<lparr>TopicArn = SNS_TOPIC_ARN env,
        Subject = ''Manual order handling required for charge '' @ s,
        Message = JsonText (JObj
          [(''message'',
            JStr ''A charge requires manual order handling due to missing metadata''),
           (''charge'', to_json charge),
           (''timestamp'', JStr (iso_now env))])\<rparr>]\<rparr>)
          \<and> stripe_handler env (DirectEvent (JsonText stripeEvent))
              (snd (stripe_handler env (DirectEvent (JsonText stripeEvent)) w)) =
              (Inr \<lparr>statusCode = 200,
        body = JsonText (JObj
          [(''message'', JStr ''Manual order handling notification sent'')])\<rparr>,
               w\<lparr>notifications := notifications w @
        [\<lparr>TopicArn = SNS_TOPIC_ARN env,
        Subject = ''Manual order handling required for charge '' @ s,
        Message = JsonText (JObj
          [(''message'',
            JStr ''A charge requires manual order handling due to missing metadata''),
           (''charge'', to_json charge),
           (''timestamp'', JStr (iso_now env))])\<rparr>,
         \<lparr>TopicArn = SNS_TOPIC_ARN env,
        Subject = ''Manual order handling required for charge '' @ s,
        Message = JsonText (JObj
          [(''message'',
            JStr ''A charge requires manual order handling due to missing metadata''),
           (''charge'', to_json charge),
           (''timestamp'', JStr (iso_now env))])\<rparr>]\<rparr>))"
proof (intro conjI allI impI)
  fix e assume "template_string (print_number env) ident = Inl e"
  from missing_reference_unprintable[OF assms this, of w]
  show "stripe_handler env (DirectEvent (JsonText stripeEvent)) w =
              (Inr \<lparr>statusCode = 500,
                    body = JsonText (JObj [(''error'', JStr (message e))])\<rparr>, w)"
    by (simp add: stripe_handler_def handler_try_def respond_def JSON_stringify_def)
next
  fix s assume h: "template_string (print_number env) ident = Inr s
             \<and> sns_rejects env
      \<lparr>TopicArn = SNS_TOPIC_ARN env,
        Subject = ''Manual order handling required for charge '' @ s,
        Message = JsonText (JObj
          [(''message'',
            JStr ''A charge requires manual order handling due to missing metadata''),
           (''charge'', to_json charge),
           (''timestamp'', JStr (iso_now env))])\<rparr> = None"
  have once: "stripe_handler env (DirectEvent (JsonText stripeEvent)) w' =
     (Inr \<lparr>statusCode = 200,
        body = JsonText (JObj
          [(''message'', JStr ''Manual order handling notification sent'')])\<rparr>,
      w'\<lparr>notifications := notifications w' @
        [\<lparr>TopicArn = SNS_TOPIC_ARN env,
        Subject = ''Manual order handling required for charge '' @ s,
        Message = JsonText (JObj
          [(''message'',
            JStr ''A charge requires manual order handling due to missing metadata''),
           (''charge'', to_json charge),
           (''timestamp'', JStr (iso_now env))])\<rparr>]\<rparr>)" for w'
    using missing_reference_outcome[OF assms conjunct1[OF h] conjunct2[OF h], of w']
    by (simp add: stripe_handler_def handler_try_def)
  show "stripe_handler env (DirectEvent (JsonText stripeEvent)) w =
              (Inr \<lparr>statusCode = 200,
        body = JsonText (JObj
          [(''message'', JStr ''Manual order handling notification sent'')])\<rparr>,
               w\<lparr>notifications := notifications w @
        [\<lparr>TopicArn = SNS_TOPIC_ARN env,
        Subject = ''Manual order handling required for charge '' @ s,
        Message = JsonText (JObj
          [(''message'',
            JStr ''A charge requires manual order handling due to missing metadata''),
           (''charge'', to_json charge),
           (''timestamp'', JStr (iso_now env))])\<rparr>]\<rparr>)"
    by (rule once)
  show "stripe_handler env (DirectEvent (JsonText stripeEvent))
              (snd (stripe_handler env (DirectEvent (JsonText stripeEvent)) w)) =
              (Inr \<lparr>statusCode = 200,
        body = JsonText (JObj
          [(''message'', JStr ''Manual order handling notification sent'')])\<rparr>,
               w\<lparr>notifications := notifications w @
        [\<lparr>TopicArn = SNS_TOPIC_ARN env,
        Subject = ''Manual order handling required for charge '' @ s,
        Message = JsonText (JObj
          [(''message'',
            JStr ''A charge requires manual order handling due to missing metadata''),
           (''charge'', to_json charge),
           (''timestamp'', JStr (iso_now env))])\<rparr>,
         \<lparr>TopicArn = SNS_TOPIC_ARN env,
        Subject = ''Manual order handling required for charge '' @ s,
        Message = JsonText (JObj
          [(''message'',
            JStr ''A charge requires manual order handling due to missing metadata''),
           (''charge'', to_json charge),
           (''timestamp'', JStr (iso_now env))])\<rparr>]\<rparr>)"
    by (simp add: once)
qed

lemma scenario_C_facts:
  "config_error stripe_env_ok = None"
  "get_prop (stripe_event ''charge.succeeded'' charge_C) ''data'' = Inr (JObj [(''object'', charge_C)])"
  "get_prop (JObj [(''object'', charge_C)]) ''object'' = Inr charge_C"
  "truthy charge_C" "get_prop charge_C ''currency'' = Inr (JStr ''usd'')" "''usd'' \<noteq> []"
  "get_prop (stripe_event ''charge.succeeded'' charge_C) ''type'' = Inr (JStr ''charge.succeeded'')"
  "get_prop charge_C ''metadata'' = Inr JUndefined"
  "get_prop charge_C ''customer'' = Inr JUndefined"
  "get_prop charge_C ''id'' = Inr (JStr ''ch_C'')"
  "template_string (print_number stripe_env_ok) (JStr ''ch_C'') = Inr ''ch_C''"
  "to_json charge_C = charge_C"
  "SNS_TOPIC_ARN stripe_env_ok = ''arn:aws:sns:manual-orders''"
  "iso_now stripe_env_ok = ''2025-01-01T00:00:00.000Z''"
  "sns_rejects stripe_env_ok m = None"
  by (simp_all add: config_error_def stripe_env_ok_def stripe_event_def charge_C_def)

text \<open>Scenario C, delivered twice.\<close>

theorem missing_order_reference_notifies_witness:
  "get_prop charge_C ''metadata'' = Inr JUndefined \<and> \<not> truthy JUndefined
   \<and> get_prop charge_C ''id'' = Inr (JStr ''ch_C'')
   \<and> stripe_handler stripe_env_ok (DirectEvent (JsonText (stripe_event ''charge.succeeded'' charge_C))) idle =
       (Inr \<lparr>statusCode = 200,
        body = JsonText (JObj
          [(''message'', JStr ''Manual order handling notification sent'')])\<rparr>,
        \<lparr>gets = [], queue = [],
         notifications =
       [\<lparr>TopicArn = ''arn:aws:sns:manual-orders'',
        Subject = ''Manual order handling required for charge ch_C'',
        Message = JsonText (JObj
          [(''message'',
            JStr ''A charge requires manual order handling due to missing metadata''),
           (''charge'', charge_C),
           (''timestamp'', JStr ''2025-01-01T00:00:00.000Z'')])\<rparr>],
         requests = []\<rparr>)
   \<and> stripe_handler stripe_env_ok (DirectEvent (JsonText (stripe_event ''charge.succeeded'' charge_C)))
        (snd (stripe_handler stripe_env_ok (DirectEvent (JsonText (stripe_event ''charge.succeeded'' charge_C))) idle)) =
       (Inr \<lparr>statusCode = 200,
        body = JsonText (JObj
          [(''message'', JStr ''Manual order handling notification sent'')])\<rparr>,
        \<lparr>gets = [], queue = [],
         notifications =
       [\<lparr>TopicArn = ''arn:aws:sns:manual-orders'',
        Subject = ''Manual order handling required for charge ch_C'',
        Message = JsonText (JObj
          [(''message'',
            JStr ''A charge requires manual order handling due to missing metadata''),
           (''charge'', charge_C),
           (''timestamp'', JStr ''2025-01-01T00:00:00.000Z'')])\<rparr>,
        \<lparr>TopicArn = ''arn:aws:sns:manual-orders'',
        Subject = ''Manual order handling required for charge ch_C'',
        Message = JsonText (JObj
          [(''message'',
            JStr ''A charge requires manual order handling due to missing metadata''),
           (''charge'', charge_C),
           (''timestamp'', JStr ''2025-01-01T00:00:00.000Z'')])\<rparr>],
         requests = []\<rparr>)"
proof -
  have disj: "\<not> truthy JUndefined
      \<or> (get_prop JUndefined ''order_number'' = Inr JUndefined \<and> \<not> truthy JUndefined)"
    by simp
  note fact = missing_order_reference_notifies[OF scenario_C_facts(1-8) disj scenario_C_facts(10),
      of idle]
  note run = conjunct2[OF fact, THEN spec, of "''ch_C''", THEN mp,
      OF conjI[OF scenario_C_facts(11) scenario_C_facts(15)]]
  have a: "stripe_handler stripe_env_ok (DirectEvent (JsonText (stripe_event ''charge.succeeded'' charge_C))) idle =
       (Inr \<lparr>statusCode = 200,
        body = JsonText (JObj
          [(''message'', JStr ''Manual order handling notification sent'')])\<rparr>,
        \<lparr>gets = [], queue = [],
         notifications =
       [\<lparr>TopicArn = ''arn:aws:sns:manual-orders'',
        Subject = ''Manual order handling required for charge ch_C'',
        Message = JsonText (JObj
          [(''message'',
            JStr ''A charge requires manual order handling due to missing metadata''),
           (''charge'', charge_C),
           (''timestamp'', JStr ''2025-01-01T00:00:00.000Z'')])\<rparr>],
         requests = []\<rparr>)"
    using conjunct1[OF run] scenario_C_facts(12-14) by (simp add: idle_def)
  have b: "stripe_handler stripe_env_ok (DirectEvent (JsonText (stripe_event ''charge.succeeded'' charge_C)))
        (snd (stripe_handler stripe_env_ok (DirectEvent (JsonText (stripe_event ''charge.succeeded'' charge_C))) idle)) =
       (Inr \<lparr>statusCode = 200,
        body = JsonText (JObj
          [(''message'', JStr ''Manual order handling notification sent'')])\<rparr>,
        \<lparr>gets = [], queue = [],
         notifications =
       [\<lparr>TopicArn = ''arn:aws:sns:manual-orders'',
        Subject = ''Manual order handling required for charge ch_C'',
        Message = JsonText (JObj
          [(''message'',
            JStr ''A charge requires manual order handling due to missing metadata''),
           (''charge'', charge_C),
           (''timestamp'', JStr ''2025-01-01T00:00:00.000Z'')])\<rparr>,
        \<lparr>TopicArn = ''arn:aws:sns:manual-orders'',
        Subject = ''Manual order handling required for charge ch_C'',
        Message = JsonText (JObj
          [(''message'',
            JStr ''A charge requires manual order handling due to missing metadata''),
           (''charge'', charge_C),
           (''timestamp'', JStr ''2025-01-01T00:00:00.000Z'')])\<rparr>],
         requests = []\<rparr>)"
    using conjunct2[OF run] scenario_C_facts(12-14) by (simp add: idle_def)
  show ?thesis using a b scenario_C_facts(8,10) by simp
qed

text \<open>
  The claim as the specification states it fails on a succeeded charge without metadata
  whose \<^verbatim>\<open>id\<close> is the object \<^verbatim>\<open>{"toString": 1}\<close>: the template literal of
  line 89 throws, the handler answers 500, and no notification is published.
\<close>

theorem unprintable_charge_id_is_not_notified:
  "get_prop (stripe_event ''charge.succeeded'' charge_with_odd_id) ''type''
     = Inr (JStr ''charge.succeeded'')
   \<and> get_prop charge_with_odd_id ''currency'' = Inr (JStr ''usd'')
   \<and> get_prop charge_with_odd_id ''metadata'' = Inr JUndefined
   \<and> stripe_handler stripe_env_ok (DirectEvent (JsonText (stripe_event ''charge.succeeded'' charge_with_odd_id))) idle =
       (Inr \<lparr>statusCode = 500,
             body = JsonText (JObj
               [(''error'', JStr ''Cannot convert object to primitive value'')])\<rparr>,
        \<lparr>gets = [], queue = [], notifications = [], requests = []\<rparr>)"
  by (simp add: stripe_handler_def handler_try_def processStripeEvent_def config_error_def
      stripe_env_ok_def stripe_event_def charge_with_odd_id_def unprintable_def
      charge_id_text_def respond_def JSON_stringify_def idle_def upper_char_def)

text \<open>
  Claim C9, as the code has it. The order reference is checked (line 88) before the
  customer (line 98). A \<^verbatim>\<open>charge.succeeded\<close> event without a customer is rejected
  with the error of line 99 (or with the error of converting the charge's identifier
  for its message) when \<^verbatim>\<open>metadata.order_number\<close> is present. When it is missing
  too, no error about the customer is thrown: the function throws the error of
  converting the charge's identifier to a string (line 89) if there is one; otherwise,
  the topic accepting the notification, it publishes the notification and answers 200.
\<close>

theorem order_reference_checked_before_customer:
  assumes "config_error env = None"
    and "get_prop stripeEvent ''data'' = Inr data" "get_prop data ''object'' = Inr charge"
    and "truthy charge" "get_prop charge ''currency'' = Inr (JStr c)" "c \<noteq> []"
    and "get_prop stripeEvent ''type'' = Inr (JStr ''charge.succeeded'')"
    and "get_prop charge ''customer'' = Inr customer" "\<not> truthy customer"
    and "get_prop charge ''metadata'' = Inr metadata"
    and "(if truthy metadata then get_prop metadata ''order_number'' else Inr JUndefined) = Inr n"
    and "get_prop charge ''id'' = Inr ident"
  shows "(truthy metadata \<and> truthy n \<longrightarrow>
            processStripeEvent env stripeEvent w =
              ((case template_string (print_number env) ident of
                  Inl e \<Rightarrow> Inl e
                | Inr s \<Rightarrow> Inl (Error (''No customer ID found on Charge '' @ s @ ''.''))), w))
       \<and> (\<not> (truthy metadata \<and> truthy n) \<longrightarrow>
            (\<forall>e. template_string (print_number env) ident = Inl e \<longrightarrow>
               processStripeEvent env stripeEvent w = (Inl e, w))
          \<and> (\<forall>s. template_string (print_number env) ident = Inr s
                \<and> sns_rejects env
      \<lparr>TopicArn = SNS_TOPIC_ARN env,
        Subject = ''Manual order handling required for charge '' @ s,
        Message = JsonText (JObj
          [(''message'',
            JStr ''A charge requires manual order handling due to missing metadata''),
           (''charge'', to_json charge),
           (''timestamp'', JStr (iso_now env))])\<rparr> = None \<longrightarrow>
               processStripeEvent env stripeEvent w =
                 (Inr \<lparr>statusCode = 200,
        body = JsonText (JObj
          [(''message'', JStr ''Manual order handling notification sent'')])\<rparr>,
                  w\<lparr>notifications := notifications w @
        [\<lparr>TopicArn = SNS_TOPIC_ARN env,
        Subject = ''Manual order handling required for charge '' @ s,
        Message = JsonText (JObj
          [(''message'',
            JStr ''A charge requires manual order handling due to missing metadata''),
           (''charge'', to_json charge),
           (''timestamp'', JStr (iso_now env))])\<rparr>]\<rparr>)))"
  using assms truthy_defined[OF assms(4)]
  by (auto simp add: processStripeEvent_def raising_case sendManualOrderNotification_def
      charge_id_text_def respond_def JSON_stringify_def split: sum.splits)

text \<open>Scenario C's charge has neither metadata nor a customer.\<close>

theorem order_reference_checked_before_customer_witness:
  "get_prop charge_C ''customer'' = Inr JUndefined \<and> \<not> truthy JUndefined
   \<and> get_prop charge_C ''metadata'' = Inr JUndefined
   \<and> processStripeEvent stripe_env_ok (stripe_event ''charge.succeeded'' charge_C) idle =
       (Inr \<lparr>statusCode = 200,
        body = JsonText (JObj
          [(''message'', JStr ''Manual order handling notification sent'')])\<rparr>,
        \<lparr>gets = [], queue = [],
         notifications =
       [\<lparr>TopicArn = ''arn:aws:sns:manual-orders'',
        Subject = ''Manual order handling required for charge ch_C'',
        Message = JsonText (JObj
          [(''message'',
            JStr ''A charge requires manual order handling due to missing metadata''),
           (''charge'', charge_C),
           (''timestamp'', JStr ''2025-01-01T00:00:00.000Z'')])\<rparr>],
         requests = []\<rparr>)"
proof -
  have n: "(if truthy JUndefined then get_prop JUndefined ''order_number'' else Inr JUndefined)
      = Inr JUndefined"
    by simp
  have falsy: "\<not> truthy JUndefined" by simp
  note fact = order_reference_checked_before_customer[OF scenario_C_facts(1-7)
      scenario_C_facts(9) falsy scenario_C_facts(8) n scenario_C_facts(10), of idle]
  note run = conjunct2[OF conjunct2[OF fact, THEN mp], THEN spec, of "''ch_C''"]
  have a: "processStripeEvent stripe_env_ok (stripe_event ''charge.succeeded'' charge_C) idle =
       (Inr \<lparr>statusCode = 200,
        body = JsonText (JObj
          [(''message'', JStr ''Manual order handling notification sent'')])\<rparr>,
        \<lparr>gets = [], queue = [],
         notifications =
       [\<lparr>TopicArn = ''arn:aws:sns:manual-orders'',
        Subject = ''Manual order handling required for charge ch_C'',
        Message = JsonText (JObj
          [(''message'',
            JStr ''A charge requires manual order handling due to missing metadata''),
           (''charge'', charge_C),
           (''timestamp'', JStr ''2025-01-01T00:00:00.000Z'')])\<rparr>],
         requests = []\<rparr>)"
    using run scenario_C_facts(11-15) by (simp add: idle_def)
  show ?thesis using a scenario_C_facts(8,9) by simp
qed

text \<open>
  The claim as the specification states it fails on a succeeded charge with neither
  metadata nor customer whose \<^verbatim>\<open>id\<close> is the object \<^verbatim>\<open>{"toString": 1}\<close>: the
  function throws the \<^verbatim>\<open>TypeError\<close> of line 89, and the event is not routed to the
  topic.
\<close>

theorem unprintable_charge_id_precedes_both_checks:
  "get_prop (stripe_event ''charge.succeeded'' charge_with_odd_id) ''type''
     = Inr (JStr ''charge.succeeded'')
   \<and> get_prop charge_with_odd_id ''metadata'' = Inr JUndefined
   \<and> get_prop charge_with_odd_id ''customer'' = Inr JUndefined
   \<and> processStripeEvent stripe_env_ok (stripe_event ''charge.succeeded'' charge_with_odd_id) idle =
       (Inl (TypeError ''Cannot convert object to primitive value''),
        \<lparr>gets = [], queue = [], notifications = [], requests = []\<rparr>)"
  by (simp add: processStripeEvent_def config_error_def
      stripe_env_ok_def stripe_event_def charge_with_odd_id_def unprintable_def
      charge_id_text_def idle_def upper_char_def)

subsection \<open>A succeeded charge whose order is not in the table\<close>

text \<open>
  What the function does with a valid succeeded charge whose order the table does not
  hold.
\<close>

lemma order_not_found_outcome:
  assumes "config_error env = None"
    and "get_prop stripeEvent ''data'' = Inr data" "get_prop data ''object'' = Inr charge"
    and "truthy charge" "get_prop charge ''currency'' = Inr (JStr c)" "c \<noteq> []"
    and "get_prop stripeEvent ''type'' = Inr (JStr ''charge.succeeded'')"
    and "get_prop charge ''metadata'' = Inr metadata" "truthy metadata"
    and "get_prop metadata ''order_number'' = Inr n" "truthy n"
    and "get_prop charge ''customer'' = Inr customer" "truthy customer"
    and "to_string (print_number env) n = Inr k"
    and "dynamo_get env k = Inr None"
    and "sqs_rejects env
      \<lparr>QueueUrl = RETRY_QUEUE_URL env,
        MessageBody = JsonText (JObj
          [(''order_number'', JStr k),
           (''stripeEvent'', to_json stripeEvent),
           (''timestamp'', JStr (iso_now env))]),
        DelaySeconds = 5\<rparr> = None"
  shows "processStripeEvent env stripeEvent w =
     (Inr \<lparr>statusCode = 200,
        body = JsonText (JObj
          [(''error'', JStr ''Order not found, event queued for retry'')])\<rparr>,
      w\<lparr>gets := gets w @ [k],
        queue := queue w @
       [\<lparr>QueueUrl = RETRY_QUEUE_URL env,
        MessageBody = JsonText (JObj
          [(''order_number'', JStr k),
           (''stripeEvent'', to_json stripeEvent),
           (''timestamp'', JStr (iso_now env))]),
        DelaySeconds = 5\<rparr>]\<rparr>)"
  using assms get_prop_defined[OF assms(2)] to_string_template[OF assms(14)]
  by (auto simp add: processStripeEvent_def raising_case sendRetryMessage_def respond_def
      JSON_stringify_def)

lemma scenario_B_facts:
  "config_error stripe_env_ok = None"
  "get_prop (stripe_event ''charge.succeeded'' charge_B) ''data'' = Inr (JObj [(''object'', charge_B)])"
  "get_prop (JObj [(''object'', charge_B)]) ''object'' = Inr charge_B"
  "truthy charge_B" "get_prop charge_B ''currency'' = Inr (JStr ''usd'')" "''usd'' \<noteq> []"
  "get_prop (stripe_event ''charge.succeeded'' charge_B) ''type'' = Inr (JStr ''charge.succeeded'')"
  "get_prop charge_B ''metadata'' = Inr (JObj [(''order_number'', JStr ''999'')])"
  "truthy (JObj [(''order_number'', JStr ''999'')])"
  "get_prop (JObj [(''order_number'', JStr ''999'')]) ''order_number'' = Inr (JStr ''999'')"
  "truthy (JStr ''999'')"
  "get_prop charge_B ''customer'' = Inr (JStr ''cus_1'')" "truthy (JStr ''cus_1'')"
  "to_string (print_number stripe_env_ok) (JStr ''999'') = Inr ''999''"
  "dynamo_get stripe_env_ok ''999'' = Inr None"
  "sqs_rejects stripe_env_ok m = None"
  "to_json (stripe_event ''charge.succeeded'' charge_B) = stripe_event ''charge.succeeded'' charge_B"
  "RETRY_QUEUE_URL stripe_env_ok = ''https://sqs.example/StripeRetryQueue''"
  "iso_now stripe_env_ok = ''2025-01-01T00:00:00.000Z''"
  by (simp_all add: config_error_def stripe_env_ok_def stripe_event_def charge_B_def)

text \<open>
  Claim C1, as the code has it. For a valid \<^verbatim>\<open>charge.succeeded\<close> event whose order is
  not in the table (the queue accepting the message), the function queues one message
  on the queue of \<^verbatim>\<open>STRIPE_RETRY_QUEUE_URL\<close>, with a delay of 5 seconds. Its body is
  the JSON text of the envelope \<^verbatim>\<open>{ order_number, stripeEvent, timestamp }\<close>: the
  order number, the event as it came in, and the time. The envelope has no
  \<^verbatim>\<open>attempt\<close> property: the source keeps no attempt counter.
\<close>

theorem retry_envelope_carries_no_attempt:
  assumes "config_error env = None"
    and "get_prop stripeEvent ''data'' = Inr data" "get_prop data ''object'' = Inr charge"
    and "truthy charge" "get_prop charge ''currency'' = Inr (JStr c)" "c \<noteq> []"
    and "get_prop stripeEvent ''type'' = Inr (JStr ''charge.succeeded'')"
    and "get_prop charge ''metadata'' = Inr metadata" "truthy metadata"
    and "get_prop metadata ''order_number'' = Inr n" "truthy n"
    and "get_prop charge ''customer'' = Inr customer" "truthy customer"
    and "to_string (print_number env) n = Inr k"
    and "dynamo_get env k = Inr None"
    and "sqs_rejects env
      \<lparr>QueueUrl = RETRY_QUEUE_URL env,
        MessageBody = JsonText (JObj
          [(''order_number'', JStr k),
           (''stripeEvent'', to_json stripeEvent),
           (''timestamp'', JStr (iso_now env))]),
        DelaySeconds = 5\<rparr> = None"
  shows "queue (snd (processStripeEvent env stripeEvent w)) = queue w @
       [\<lparr>QueueUrl = RETRY_QUEUE_URL env,
        MessageBody = JsonText (JObj
          [(''order_number'', JStr k),
           (''stripeEvent'', to_json stripeEvent),
           (''timestamp'', JStr (iso_now env))]),
        DelaySeconds = 5\<rparr>]
     \<and> envelope_attempt
       \<lparr>QueueUrl = RETRY_QUEUE_URL env,
        MessageBody = JsonText (JObj
          [(''order_number'', JStr k),
           (''stripeEvent'', to_json stripeEvent),
           (''timestamp'', JStr (iso_now env))]),
        DelaySeconds = 5\<rparr> = Inr JUndefined"
  using order_not_found_outcome[OF assms, of w]
  by (simp add: envelope_attempt_def)

text \<open>Scenario B: the envelope for order \<^verbatim>\<open>999\<close>.\<close>

theorem retry_envelope_carries_no_attempt_witness:
  "queue (snd (processStripeEvent stripe_env_ok (stripe_event ''charge.succeeded'' charge_B) idle)) =
       [\<lparr>QueueUrl = ''https://sqs.example/StripeRetryQueue'',
        MessageBody = JsonText (JObj
          [(''order_number'', JStr ''999''),
           (''stripeEvent'', stripe_event ''charge.succeeded'' charge_B),
           (''timestamp'', JStr ''2025-01-01T00:00:00.000Z'')]),
        DelaySeconds = 5\<rparr>]
   \<and> envelope_attempt
       \<lparr>QueueUrl = ''https://sqs.example/StripeRetryQueue'',
        MessageBody = JsonText (JObj
          [(''order_number'', JStr ''999''),
           (''stripeEvent'', stripe_event ''charge.succeeded'' charge_B),
           (''timestamp'', JStr ''2025-01-01T00:00:00.000Z'')]),
        DelaySeconds = 5\<rparr> = Inr JUndefined"
proof -
  note fact = retry_envelope_carries_no_attempt[OF scenario_B_facts(1-16), of idle]
  have a: "queue (snd (processStripeEvent stripe_env_ok
                    (stripe_event ''charge.succeeded'' charge_B) idle)) =
       [\<lparr>QueueUrl = ''https://sqs.example/StripeRetryQueue'',
        MessageBody = JsonText (JObj
          [(''order_number'', JStr ''999''),
           (''stripeEvent'', stripe_event ''charge.succeeded'' charge_B),
           (''timestamp'', JStr ''2025-01-01T00:00:00.000Z'')]),
        DelaySeconds = 5\<rparr>]"
    using conjunct1[OF fact] scenario_B_facts(17-19) by (simp add: idle_def)
  have b: "envelope_attempt
       \<lparr>QueueUrl = ''https://sqs.example/StripeRetryQueue'',
        MessageBody = JsonText (JObj
          [(''order_number'', JStr ''999''),
           (''stripeEvent'', stripe_event ''charge.succeeded'' charge_B),
           (''timestamp'', JStr ''2025-01-01T00:00:00.000Z'')]),
        DelaySeconds = 5\<rparr> = Inr JUndefined"
    using conjunct2[OF fact] scenario_B_facts(17-19) by simp
  show ?thesis by (intro conjI a b)
qed

text \<open>
  The claim as the specification states it fails in Scenario B: one envelope is queued,
  and reading its \<^verbatim>\<open>attempt\<close> gives \<^verbatim>\<open>undefined\<close>, not \<open>1\<close>.
\<close>

theorem scenario_B_envelope_attempt_is_undefined:
  "map envelope_attempt
     (queue (snd (processStripeEvent stripe_env_ok
                    (stripe_event ''charge.succeeded'' charge_B) idle)))
     = [Inr JUndefined]
   \<and> map envelope_attempt
     (queue (snd (processStripeEvent stripe_env_ok
                    (stripe_event ''charge.succeeded'' charge_B) idle)))
     \<noteq> [Inr (JNum 1)]"
  by (simp add: processStripeEvent_def config_error_def stripe_env_ok_def stripe_event_def
      charge_B_def idle_def sendRetryMessage_def
      envelope_attempt_def JSON_stringify_def upper_char_def)

text \<open>
  Claim C4. A valid \<^verbatim>\<open>charge.succeeded\<close> event whose order is not in the table,
  delivered to the handler while the queue accepts the message: the answer is 200 with
  the body \<^verbatim>\<open>{"error":"Order not found, event queued for retry"}\<close>, the table has been
  asked for the order, and one message has been queued, on the queue of
  \<^verbatim>\<open>STRIPE_RETRY_QUEUE_URL\<close>, with the envelope of the order number, the event and
  the time as its body and a delay of 5 seconds. No HTTP request and no notification has
  been sent.
\<close>

theorem order_not_found_is_queued_for_retry:
  assumes "config_error env = None"
    and "get_prop stripeEvent ''data'' = Inr data" "get_prop data ''object'' = Inr charge"
    and "truthy charge" "get_prop charge ''currency'' = Inr (JStr c)" "c \<noteq> []"
    and "get_prop stripeEvent ''type'' = Inr (JStr ''charge.succeeded'')"
    and "get_prop charge ''metadata'' = Inr metadata" "truthy metadata"
    and "get_prop metadata ''order_number'' = Inr n" "truthy n"
    and "get_prop charge ''customer'' = Inr customer" "truthy customer"
    and "to_string (print_number env) n = Inr k"
    and "dynamo_get env k = Inr None"
    and "sqs_rejects env
      \<lparr>QueueUrl = RETRY_QUEUE_URL env,
        MessageBody = JsonText (JObj
          [(''order_number'', JStr k),
           (''stripeEvent'', to_json stripeEvent),
           (''timestamp'', JStr (iso_now env))]),
        DelaySeconds = 5\<rparr> = None"
  shows "stripe_handler env (DirectEvent (JsonText stripeEvent)) w =
     (Inr \<lparr>statusCode = 200,
        body = JsonText (JObj
          [(''error'', JStr ''Order not found, event queued for retry'')])\<rparr>,
      w\<lparr>gets := gets w @ [k],
        queue := queue w @
       [\<lparr>QueueUrl = RETRY_QUEUE_URL env,
        MessageBody = JsonText (JObj
          [(''order_number'', JStr k),
           (''stripeEvent'', to_json stripeEvent),
           (''timestamp'', JStr (iso_now env))]),
        DelaySeconds = 5\<rparr>]\<rparr>)
     \<and> requests (snd (stripe_handler env (DirectEvent (JsonText stripeEvent)) w)) = requests w
     \<and> notifications (snd (stripe_handler env (DirectEvent (JsonText stripeEvent)) w))
         = notifications w"
  using order_not_found_outcome[OF assms, of w]
  by (simp add: stripe_handler_def handler_try_def)

text \<open>Scenario B, delivered to the handler.\<close>

theorem order_not_found_is_queued_for_retry_witness:
  "stripe_handler stripe_env_ok (DirectEvent (JsonText (stripe_event ''charge.succeeded'' charge_B))) idle =
     (Inr \<lparr>statusCode = 200,
        body = JsonText (JObj
          [(''error'', JStr ''Order not found, event queued for retry'')])\<rparr>,
      \<lparr>gets = [''999''],
       queue =
       [\<lparr>QueueUrl = ''https://sqs.example/StripeRetryQueue'',
        MessageBody = JsonText (JObj
          [(''order_number'', JStr ''999''),
           (''stripeEvent'', stripe_event ''charge.succeeded'' charge_B),
           (''timestamp'', JStr ''2025-01-01T00:00:00.000Z'')]),
        DelaySeconds = 5\<rparr>],
       notifications = [], requests = []\<rparr>)"
  using order_not_found_is_queued_for_retry[OF scenario_B_facts(1-16), of idle]
    scenario_B_facts(17-19)
  by (simp add: idle_def)

subsection \<open>The handler catches every error\<close>

text \<open>Every response that the function returns has status 200.\<close>

lemma invoice_order_status:
  "invoice_order env charge currency customerId k orderRecord w = (Inr r, w')
     \<Longrightarrow> statusCode r = 200"
  unfolding invoice_order_def raising_case after_case Let_def do_fetch_def
  by (auto simp: respond_def split: sum.splits prod.splits if_splits option.splits)

lemma processStripeEvent_status:
  "processStripeEvent env ev w = (Inr r, w') \<Longrightarrow> statusCode r = 200"
  unfolding processStripeEvent_def raising_case after_case Let_def
  by (auto simp: respond_def invoice_order_status
      split: sum.splits prod.splits if_splits option.splits)

lemma handler_try_status:
  "handler_try env event w = (Inr r, w') \<Longrightarrow> statusCode r = 200"
  unfolding handler_try_def raising_case after_case
  by (auto simp: respond_def processStripeEvent_status
      split: lambda_event.splits sum.splits prod.splits)

text \<open>
  Claim C10. For every event, in all surroundings and every state, the handler returns
  a response and throws nothing: the response of the \<^verbatim>\<open>try\<close> block, with status 200,
  or, when the block throws an error, status 500 with the error's message in the body.
\<close>

theorem stripe_handler_always_responds:
  "\<exists>r w'. stripe_handler env event w = (Inr r, w')
     \<and> (statusCode r = 200 \<and> fst (handler_try env event w) = Inr r
        \<or> statusCode r = 500
          \<and> (\<exists>e. fst (handler_try env event w) = Inl e
                \<and> body r = JSON_stringify (JObj [(''error'', JStr (message e))])))"
proof (cases "handler_try env event w")
  case (Pair res w')
  show ?thesis
  proof (cases res)
    case (Inl e)
    then show ?thesis using Pair by (simp add: stripe_handler_def respond_def)
  next
    case (Inr r)
    then show ?thesis using Pair handler_try_status[of env event w r w']
      by (simp add: stripe_handler_def)
  qed
qed

text \<open>A request body that is not JSON is answered with 500 and the parser's message.\<close>

theorem stripe_handler_always_responds_witness:
  "stripe_handler stripe_env_ok (DirectEvent NotJson) idle =
     (Inr (respond 500 (JObj [(''error'', JStr ''Unexpected token'')])), idle)"
  using stripe_handler_always_responds[of stripe_env_ok "DirectEvent NotJson" idle]
  by (simp add: stripe_handler_def handler_try_def)

text \<open>
  The order consumer has no such \<^verbatim>\<open>catch\<close>: a payload that is \<^verbatim>\<open>null\<close> makes its
  handler throw.
\<close>

lemma order_consumer_lets_type_error_escape:
  "fst (konverzky_handler env (DirectEvent (JsonText JNull)) w) =
     Inl (TypeError ''Cannot read properties of null'')"
  by (simp add: konverzky_handler_def Let_def)

subsection \<open>The unit price of an invoice line\<close>

lemma upper_char_values:
  "map upper_char ''usd'' = ''USD''"
  by code_simp

text \<open>
  Scenario A, from the payment to the invoice: for the stored widget, priced 9.99, the
  one line that is sent to Fiken has unit price 999 (the product rounds to it),
  quantity 2 and the export account.
\<close>

lemma scenario_A_invoice_line:
  "fst (stripe_handler (shop_env widget)
      (DirectEvent (JsonText (stripe_event ''charge.succeeded'' charge_D))) idle) =
    Inr (respond 200 (JObj [(''message'',
           JStr ''Contact and invoice created and sent via email successfully'')]))
  \<and> submitted_lines (requests (snd (stripe_handler (shop_env widget)
      (DirectEvent (JsonText (stripe_event ''charge.succeeded'' charge_D))) idle)) ! 3) =
    Inr (JArr [JObj [(''currency'', JStr ''USD''),
                (''vatType'', JStr ''EXEMPT_IMPORT_EXPORT''),
                (''incomeAccount'', JNum 3110),
                (''productName'', JStr ''Widget''),
                (''description'', JStr ''Widget''),
                (''comment'', JStr ''#w1''),
                (''unitPrice'', JNum 999),
                (''quantity'', JNum 2)]])"
  by code_simp

text \<open>
  Claim C2 fails on the code at the price that the comment of line 220 names. For a
  stored item priced 19.99 the line that is sent to Fiken has the unit price
  \<open>8791694975696895 / 4398046511104\<close>, which JavaScript prints as
  \<^verbatim>\<open>1998.9999999999998\<close>: the product is rounded to binary64, and it is not 1999.
\<close>

theorem unit_price_19_99_is_not_1999:
  "fst (stripe_handler (shop_env item_19_99)
      (DirectEvent (JsonText (stripe_event ''charge.succeeded'' charge_D))) idle) =
    Inr (respond 200 (JObj [(''message'',
           JStr ''Contact and invoice created and sent via email successfully'')]))
  \<and> submitted_lines (requests (snd (stripe_handler (shop_env item_19_99)
      (DirectEvent (JsonText (stripe_event ''charge.succeeded'' charge_D))) idle)) ! 3) =
    Inr (JArr [JObj [(''currency'', JStr ''USD''),
                (''vatType'', JStr ''EXEMPT_IMPORT_EXPORT''),
                (''incomeAccount'', JNum 3110),
                (''productName'', JStr ''Widget''),
                (''description'', JStr ''Widget''),
                (''comment'', JStr ''#w1''),
                (''unitPrice'', JNum (8791694975696895 / 4398046511104)),
                (''quantity'', JNum 2)]])
  \<and> JNum (8791694975696895 / 4398046511104) \<noteq> JNum 1999"
  by code_simp

end
